theory Spec2Isabelle
  imports Complex_Main "HOL-Library.Multiset"
begin

section \<open>Numeric model\<close>

text \<open>
  The code is modelled twice.  In the first model the C++ type \<^verbatim>\<open>double\<close> is
  \<^typ>\<open>real\<close>: every arithmetic operation is exact, there is no rounding, no NaN and no
  infinity.  It is used for the properties that are about the control flow of the code
  (which branch is taken, what is stored, how often the loop runs) and that hold of the
  computed values whatever the rounding.  In the second model (the sections on binary64
  below) every operation is rounded to binary64; it is used where a property depends on
  the rounding.  The one place where the source stores an infinity (\<^verbatim>\<open>best_t\<close> starts as
  \<^verbatim>\<open>numeric_limits<double>::infinity()\<close>) is modelled by \<^typ>\<open>real option\<close>, \<^term>\<open>None\<close>
  standing for \<open>+\<infinity>\<close>.  The C++ type \<^verbatim>\<open>int\<close> (wall identifiers, indices, the bounce
  counter) is modelled by \<^typ>\<open>int\<close> and \<^typ>\<open>nat\<close>; the source never relies on overflow
  of these.
\<close>

section \<open>vec2.hpp\<close>

text \<open>
  \<^verbatim>\<open>struct Vec2 { double x; double y; }\<close>.  The selectors are named \<open>vx\<close> and \<open>vy\<close>
  (the source's \<^verbatim>\<open>x\<close> and \<^verbatim>\<open>y\<close>), so that \<open>x\<close> and \<open>y\<close> stay available as variables.
\<close>

datatype Vec2 = Vec2 (vx: real) (vy: real)

text \<open>\<^verbatim>\<open>operator+\<close>, \<^verbatim>\<open>operator-\<close>, \<^verbatim>\<open>operator*\<close> (both operand orders compute
  \<^verbatim>\<open>{v.x * s, v.y * s}\<close>), \<^verbatim>\<open>dot\<close> and \<^verbatim>\<open>norm\<close> of \<^verbatim>\<open>Vec2\<close>.\<close>

definition vadd :: "Vec2 \<Rightarrow> Vec2 \<Rightarrow> Vec2" where
  "vadd l r = Vec2 (vx l + vx r) (vy l + vy r)"

definition vsub :: "Vec2 \<Rightarrow> Vec2 \<Rightarrow> Vec2" where
  "vsub l r = Vec2 (vx l - vx r) (vy l - vy r)"

definition vscale :: "real \<Rightarrow> Vec2 \<Rightarrow> Vec2" where
  "vscale s v = Vec2 (vx v * s) (vy v * s)"

definition dot :: "Vec2 \<Rightarrow> Vec2 \<Rightarrow> real" where
  "dot l r = vx l * vx r + vy l * vy r"

definition norm_vec :: "Vec2 \<Rightarrow> real" where
  "norm_vec v = sqrt (vx v * vx v + vy v * vy v)"

text \<open>\<^verbatim>\<open>Vec2::normalized(eps)\<close>: the zero vector when the norm is at most \<open>eps\<close>.\<close>

definition normalized :: "Vec2 \<Rightarrow> real \<Rightarrow> Vec2" where
  "normalized v eps =
     (let n = norm_vec v in
      if n \<le> eps then Vec2 0 0 else Vec2 (vx v / n) (vy v / n))"

text \<open>\<^verbatim>\<open>reflect_across_unit_normal(v, n_hat)\<close>: \<^verbatim>\<open>k = v.dot(n_hat); return v - (2.0 * k) * n_hat\<close>.\<close>

definition reflect_across_unit_normal :: "Vec2 \<Rightarrow> Vec2 \<Rightarrow> Vec2" where
  "reflect_across_unit_normal v n_hat =
     (let k = dot v n_hat in vsub v (vscale (2 * k) n_hat))"

section \<open>reflecting_world.hpp: constants and data\<close>

definition EPS_POS :: real where
  "EPS_POS = 1 / 10 ^ 12"

definition EPS_DIR :: real where
  "EPS_DIR = 1 / 10 ^ 12"

definition MAX_REFLECTIONS :: nat where
  "MAX_REFLECTIONS = 64"

text \<open>The literal \<^verbatim>\<open>1e-15\<close> of the tie test in \<^verbatim>\<open>advance_with_reflections\<close>.\<close>

definition TIE_TOL :: real where
  "TIE_TOL = 1 / 10 ^ 15"

text \<open>
  \<^verbatim>\<open>struct WallSegment { Vec2 p0; Vec2 p1; Vec2 n_hat; int id; }\<close>.  The field \<^verbatim>\<open>id\<close> is
  named \<open>wid\<close>.  The constructor \<open>WallSegment a b n_unit wall_id\<close> is the public constructor
  \<^verbatim>\<open>WallSegment(a, b, n_unit, wall_id)\<close>, which copies its four arguments into the fields.
\<close>

datatype WallSegment = WallSegment (p0: Vec2) (p1: Vec2) (n_hat: Vec2) (wid: int)

text \<open>\<^verbatim>\<open>struct ReflectingWorld { std::vector<WallSegment> walls; }\<close>\<close>

datatype ReflectingWorld = ReflectingWorld (walls: "WallSegment list")

section \<open>reflecting_world.cpp: helpers\<close>

definition cross2 :: "Vec2 \<Rightarrow> Vec2 \<Rightarrow> real" where
  "cross2 a b = vx a * vy b - vy a * vx b"

text \<open>The file-scope \<^verbatim>\<open>normalize\<close>: \<^verbatim>\<open>{0,0}\<close> if the norm is at most \<^verbatim>\<open>EPS_DIR\<close>.\<close>

definition normalize_vec :: "Vec2 \<Rightarrow> Vec2" where
  "normalize_vec v =
     (let n = norm_vec v in
      if n \<le> EPS_DIR then Vec2 0 0 else Vec2 (vx v / n) (vy v / n))"

section \<open>reflecting_world.cpp: builders\<close>

text \<open>
  The builders check their inputs with \<^verbatim>\<open>assert\<close> only.  A failed \<^verbatim>\<open>assert\<close> aborts the
  program at the call; when the translation unit is compiled with \<^verbatim>\<open>NDEBUG\<close> every
  \<^verbatim>\<open>assert\<close> (and every block under \<^verbatim>\<open>#ifndef NDEBUG\<close>) is compiled out.  The flag
  \<open>ndebug\<close> says whether \<^verbatim>\<open>NDEBUG\<close> is defined; an abort is the value \<open>Inl e\<close>, where \<open>e\<close>
  names the assertion that failed.
\<close>

datatype error =
    DegenerateSegment
  | NearZeroNormal
  | InvalidBounds
  | AutoNormalNotUnit


definition add_segment ::
    "bool \<Rightarrow> Vec2 \<Rightarrow> Vec2 \<Rightarrow> Vec2 \<Rightarrow> int \<Rightarrow> ReflectingWorld \<Rightarrow> error + ReflectingWorld" where
  "add_segment ndebug a b n_unit wall_id world =
     (let ab = Vec2 (vx b - vx a) (vy b - vy a);
          nearly_zero = (\<bar>vx ab\<bar> \<le> EPS_DIR \<and> \<bar>vy ab\<bar> \<le> EPS_DIR)
      in if \<not> ndebug \<and> \<not> (\<not> nearly_zero) then Inl DegenerateSegment
         else
           let n = normalize_vec n_unit
           in if \<not> ndebug \<and> \<not> (\<not> (vx n = 0 \<and> vy n = 0)) then Inl NearZeroNormal
              else Inr (ReflectingWorld (walls world @ [WallSegment a b n wall_id])))"


definition add_inward_box ::
    "bool \<Rightarrow> real \<Rightarrow> real \<Rightarrow> real \<Rightarrow> real \<Rightarrow> int \<Rightarrow> ReflectingWorld \<Rightarrow> error + ReflectingWorld" where
  "add_inward_box ndebug xmin xmax ymin ymax base_id world =
     (if \<not> ndebug \<and> \<not> (xmin < xmax \<and> ymin < ymax) then Inl InvalidBounds
      else
        case add_segment ndebug (Vec2 xmin ymin) (Vec2 xmax ymin) (Vec2 0 1) (base_id + 0) world of
          Inl e \<Rightarrow> Inl e
        | Inr w1 \<Rightarrow>
        (case add_segment ndebug (Vec2 xmax ymin) (Vec2 xmax ymax) (Vec2 (- 1) 0) (base_id + 1) w1 of
          Inl e \<Rightarrow> Inl e
        | Inr w2 \<Rightarrow>
        (case add_segment ndebug (Vec2 xmax ymax) (Vec2 xmin ymax) (Vec2 0 (- 1)) (base_id + 2) w2 of
          Inl e \<Rightarrow> Inl e
        | Inr w3 \<Rightarrow>
          add_segment ndebug (Vec2 xmin ymax) (Vec2 xmin ymin) (Vec2 1 0) (base_id + 3) w3)))"


section \<open>reflecting_world.cpp: advance with reflections\<close>

text \<open>
  The four variables of the scan: \<^verbatim>\<open>best_t\<close> (\<open>None\<close> is the initial infinity),
  \<^verbatim>\<open>best_idx\<close>, \<^verbatim>\<open>hit_id\<close> and \<^verbatim>\<open>hit_n\<close>.
\<close>

datatype Scan = Scan (best_t: "real option") (best_idx: int) (hit_id: int) (hit_n: Vec2)

definition scan_init :: Scan where
  "scan_init = Scan None (- 1) (- 1) (Vec2 0 0)"

text \<open>\<^verbatim>\<open>t < best_t - 1e-15\<close> and \<^verbatim>\<open>std::abs(t - best_t) <= 1e-15\<close> with \<open>best_t\<close> possibly
  infinite: every finite \<open>t\<close> is below infinity, and none is within \<^verbatim>\<open>1e-15\<close> of it.\<close>

definition t_earlier :: "real \<Rightarrow> real option \<Rightarrow> bool" where
  "t_earlier t bt = (case bt of None \<Rightarrow> True | Some b \<Rightarrow> t < b - TIE_TOL)"

definition t_tied :: "real \<Rightarrow> real option \<Rightarrow> bool" where
  "t_tied t bt = (case bt of None \<Rightarrow> False | Some b \<Rightarrow> \<bar>t - b\<bar> \<le> TIE_TOL)"

text \<open>The body of the \<^verbatim>\<open>for\<close> loop over the walls, for the wall \<open>w\<close> at index \<open>i\<close>.\<close>

definition scan_wall :: "Vec2 \<Rightarrow> Vec2 \<Rightarrow> nat \<Rightarrow> WallSegment \<Rightarrow> Scan \<Rightarrow> Scan" where
  "scan_wall p v i w st =
     (let a = p0 w; b = p1 w;
          s = Vec2 (vx b - vx a) (vy b - vy a);
          denom = cross2 v s
      in if \<bar>denom\<bar> \<le> EPS_DIR then st
         else
           let ap = Vec2 (vx a - vx p) (vy a - vy p);
               t = cross2 ap s / denom
           in if t \<le> EPS_POS \<or> t > 1 + EPS_POS then st
              else
                let u = cross2 ap v / denom
                in if u < - EPS_POS \<or> u > 1 + EPS_POS then st
                   else if t_earlier t (best_t st) \<or>
                           (t_tied t (best_t st) \<and>
                            (wid w < hit_id st \<or> (wid w = hit_id st \<and> int i < best_idx st)))
                        then Scan (Some t) (int i) (wid w) (n_hat w)
                        else st)"

text \<open>The \<^verbatim>\<open>for\<close> loop, from index \<open>i\<close> on.\<close>

fun scan_walls :: "Vec2 \<Rightarrow> Vec2 \<Rightarrow> nat \<Rightarrow> WallSegment list \<Rightarrow> Scan \<Rightarrow> Scan" where
  "scan_walls p v i [] st = st"
| "scan_walls p v i (w # ws) st = scan_walls p v (Suc i) ws (scan_wall p v i w st)"

text \<open>The early-exit test \<^verbatim>\<open>std::abs(v.x) <= EPS_DIR && std::abs(v.y) <= EPS_DIR\<close>.\<close>

definition no_motion :: "Vec2 \<Rightarrow> bool" where
  "no_motion v \<longleftrightarrow> \<bar>vx v\<bar> \<le> EPS_DIR \<and> \<bar>vy v\<bar> \<le> EPS_DIR"

text \<open>
  The state of the \<^verbatim>\<open>while\<close> loop: the position \<open>p\<close>, the remaining displacement \<open>v\<close>
  and the counter \<^verbatim>\<open>bounces\<close>.
\<close>

datatype Loop = Loop (pos: Vec2) (rem: Vec2) (bounces: nat)

text \<open>
  One execution of the body of \<^verbatim>\<open>while (bounces < MAX_REFLECTIONS)\<close>.  \<open>Inl l\<close>: the body
  leaves the loop by one of its two \<^verbatim>\<open>break\<close>s, in state \<open>l\<close>; \<open>Inr l\<close>: the body
  reaches its end in state \<open>l\<close> and the loop condition is tested again.
\<close>

definition loop_body :: "WallSegment list \<Rightarrow> Loop \<Rightarrow> Loop + Loop" where
  "loop_body ws l =
     (let p = pos l; v = rem l;
          st = scan_walls p v 0 ws scan_init
      in case best_t st of
           None \<Rightarrow> Inl (Loop (vadd p v) v (bounces l))
         | Some bt \<Rightarrow>
             if best_idx st < 0 then Inl (Loop (vadd p v) v (bounces l))
             else
               let p = vadd p (Vec2 (vx v * bt) (vy v * bt));
                   p = vadd p (Vec2 (vx (hit_n st) * EPS_POS) (vy (hit_n st) * EPS_POS));
                   v_remain = Vec2 (vx v * (1 - bt)) (vy v * (1 - bt));
                   v = reflect_across_unit_normal v_remain (hit_n st)
               in if no_motion v then Inl (Loop p v (bounces l + 1))
                  else Inr (Loop p v (bounces l + 1)))"

text \<open>The \<^verbatim>\<open>while\<close> loop; the result is the state in which the loop is left.\<close>

function advance_loop :: "WallSegment list \<Rightarrow> Loop \<Rightarrow> Loop" where
  "advance_loop ws l =
     (if bounces l < MAX_REFLECTIONS then
        case loop_body ws l of
          Inl l' \<Rightarrow> l'
        | Inr l' \<Rightarrow> advance_loop ws l'
      else l)"
  by pat_completeness auto
termination
  by (relation "measure (\<lambda>(ws, l). MAX_REFLECTIONS - bounces l)")
     (auto simp: loop_body_def Let_def split: option.splits if_splits)

text \<open>\<^verbatim>\<open>advance_with_reflections(x, d, world)\<close>; the result is the value written back to \<open>x\<close>.\<close>

definition advance_with_reflections :: "Vec2 \<Rightarrow> Vec2 \<Rightarrow> ReflectingWorld \<Rightarrow> Vec2" where
  "advance_with_reflections x0 d world =
     (let p = x0; v = d
      in if no_motion v then p
         else pos (advance_loop (walls world) (Loop p v 0)))"

section \<open>Notions used to state the properties\<close>

text \<open>
  The number of times the body of the \<^verbatim>\<open>while\<close> loop is executed from state \<open>l\<close> on
  (the recursion of \<open>advance_loop\<close>, counting instead of returning the state).
\<close>

function iterations :: "WallSegment list \<Rightarrow> Loop \<Rightarrow> nat" where
  "iterations ws l =
     (if bounces l < MAX_REFLECTIONS then
        case loop_body ws l of
          Inl l' \<Rightarrow> 1
        | Inr l' \<Rightarrow> 1 + iterations ws l'
      else 0)"
  by pat_completeness auto
termination
  by (relation "measure (\<lambda>(ws, l). MAX_REFLECTIONS - bounces l)")
     (auto simp: loop_body_def Let_def split: option.splits if_splits)

text \<open>
  The validity tests of the scan, for one wall: \<open>Some t\<close> when the wall passes the
  determinant test, the test on \<open>t\<close> and the test on \<open>u\<close> (it is then a candidate hit with
  parameter \<open>t\<close>), \<open>None\<close> when one of the three \<^verbatim>\<open>continue\<close>s is taken.
\<close>

definition hit_param :: "Vec2 \<Rightarrow> Vec2 \<Rightarrow> WallSegment \<Rightarrow> real option" where
  "hit_param p v w =
     (let a = p0 w; b = p1 w;
          s = Vec2 (vx b - vx a) (vy b - vy a);
          denom = cross2 v s
      in if \<bar>denom\<bar> \<le> EPS_DIR then None
         else
           let ap = Vec2 (vx a - vx p) (vy a - vy p);
               t = cross2 ap s / denom
           in if t \<le> EPS_POS \<or> t > 1 + EPS_POS then None
              else
                let u = cross2 ap v / denom
                in if u < - EPS_POS \<or> u > 1 + EPS_POS then None
                   else Some t)"

text \<open>The hit parameters of the candidates among \<open>ws\<close>, in insertion order.\<close>

definition hit_times :: "Vec2 \<Rightarrow> Vec2 \<Rightarrow> WallSegment list \<Rightarrow> real list" where
  "hit_times p v ws = List.map_filter (hit_param p v) ws"




text \<open>
  What the processing of a hit leaves behind when the scan from state \<open>l\<close> selects a
  wall with parameter \<open>bt\<close> and normal \<open>n\<close>: the position is the contact point
  \<open>p + bt\<cdot>v\<close> moved by the nudge \<open>EPS_POS\<cdot>n\<close>, the remaining displacement is the
  reflection of \<open>(1 - bt)\<cdot>v\<close>, and the counter is incremented.  \<open>None\<close> when the scan
  finds no wall.
\<close>

definition hit_outcome :: "WallSegment list \<Rightarrow> Loop \<Rightarrow> Loop option" where
  "hit_outcome ws l =
     (let st = scan_walls (pos l) (rem l) 0 ws scan_init
      in case best_t st of
           None \<Rightarrow> None
         | Some bt \<Rightarrow>
             Some (Loop (vadd (vadd (pos l) (vscale bt (rem l))) (vscale EPS_POS (hit_n st)))
                     (reflect_across_unit_normal (vscale (1 - bt) (rem l)) (hit_n st))
                     (bounces l + 1)))"

text \<open>
  The state at the head of the \<^verbatim>\<open>while\<close> loop after \<open>k\<close> complete executions of its body
  from state \<open>l\<close>; \<open>None\<close> when the loop is left before (by a \<^verbatim>\<open>break\<close> or by its
  condition).
\<close>

fun steps :: "nat \<Rightarrow> WallSegment list \<Rightarrow> Loop \<Rightarrow> Loop option" where
  "steps 0 ws l = Some l"
| "steps (Suc k) ws l =
     (if bounces l < MAX_REFLECTIONS then
        case loop_body ws l of
          Inl l' \<Rightarrow> None
        | Inr l' \<Rightarrow> steps k ws l'
      else None)"



section \<open>Example scenes\<close>

text \<open>The four walls that \<open>add_inward_box(0, 1, 0, 1, 100)\<close> appends to an empty world.\<close>

definition unit_box :: "WallSegment list" where
  "unit_box =
     [WallSegment (Vec2 0 0) (Vec2 1 0) (Vec2 0 1) 100,
      WallSegment (Vec2 1 0) (Vec2 1 1) (Vec2 (- 1) 0) 101,
      WallSegment (Vec2 1 1) (Vec2 0 1) (Vec2 0 (- 1)) 102,
      WallSegment (Vec2 0 1) (Vec2 0 0) (Vec2 1 0) 103]"

text \<open>Two facing vertical walls, at \<open>x = 0\<close> and \<open>x = 1\<close>.\<close>

definition corridor :: "WallSegment list" where
  "corridor =
     [WallSegment (Vec2 0 (- 1)) (Vec2 0 1) (Vec2 1 0) 0,
      WallSegment (Vec2 1 (- 1)) (Vec2 1 1) (Vec2 (- 1) 0) 1]"


section \<open>Binary64 arithmetic\<close>

text \<open>
  Where a property depends on the rounding of \<^verbatim>\<open>double\<close> operations, the code is modelled
  a second time with every arithmetic operation rounded to binary64 (IEEE 754 double
  precision, round to nearest, ties to even; each operation is rounded on its own, there
  is no fused multiply-add).  A binary64 number is a real \<open>m * 2 ^ (e - 52)\<close> with \<open>m\<close> an
  integer, \<open>\<bar>m\<bar> < 2 ^ 53\<close> and \<open>- 1022 \<le> e \<le> 1023\<close>.  Infinities, NaN and the sign of zero
  are not represented: a result of magnitude \<open>2 ^ 1024\<close> or more is outside the model, and
  the properties stated on it bound their inputs so that no operation overflows.
\<close>

text \<open>Round to the nearest integer, a tie to the even one.\<close>

definition rne :: "real \<Rightarrow> int" where
  "rne y = (let f = \<lfloor>y\<rfloor>; r = y - of_int f
            in if r < 1 / 2 then f else if 1 / 2 < r then f + 1
               else if even f then f else f + 1)"

text \<open>
  The exponent of the binade of \<open>x\<close>: the least \<open>e \<ge> - 1022\<close> with \<open>\<bar>x\<bar> < 2 ^ (e + 1)\<close>
  (searched upwards from \<open>- 1022\<close>, the exponent of the subnormal numbers, to \<open>1023\<close>).
\<close>

fun expo_from :: "nat \<Rightarrow> int \<Rightarrow> real \<Rightarrow> int" where
  "expo_from 0 e x = e"
| "expo_from (Suc k) e x = (if \<bar>x\<bar> < 2 powi (e + 1) then e else expo_from k (e + 1) x)"

definition expo :: "real \<Rightarrow> int" where
  "expo x = expo_from 2045 (- 1022) x"

text \<open>The binary64 number nearest to \<open>x\<close>: \<open>x\<close> rounded to a multiple of \<open>2 ^ (expo x - 52)\<close>.\<close>

definition fl :: "real \<Rightarrow> real" where
  "fl x = (let u = 2 powi (expo x - 52) in of_int (rne (x / u)) * u)"


section \<open>vec2.hpp and reflecting_world.cpp in binary64\<close>

text \<open>The literals \<^verbatim>\<open>1e-12\<close> and \<^verbatim>\<open>1e-15\<close> denote the binary64 numbers nearest to them.\<close>

definition EPS_POS_b64 :: real where
  "EPS_POS_b64 = fl (1 / 10 ^ 12)"

definition EPS_DIR_b64 :: real where
  "EPS_DIR_b64 = fl (1 / 10 ^ 12)"

definition TIE_TOL_b64 :: real where
  "TIE_TOL_b64 = fl (1 / 10 ^ 15)"

text \<open>\<^verbatim>\<open>Vec2::dot\<close>, \<^verbatim>\<open>Vec2::norm\<close> and \<^verbatim>\<open>reflect_across_unit_normal\<close>.\<close>

definition dot_b64 :: "Vec2 \<Rightarrow> Vec2 \<Rightarrow> real" where
  "dot_b64 a b = fl (fl (vx a * vx b) + fl (vy a * vy b))"


definition reflect_b64 :: "Vec2 \<Rightarrow> Vec2 \<Rightarrow> Vec2" where
  "reflect_b64 v n =
     (let k = dot_b64 v n;
          s = fl (2 * k)
      in Vec2 (fl (vx v - fl (vx n * s))) (fl (vy v - fl (vy n * s))))"

text \<open>\<^verbatim>\<open>cross2\<close> and the \<^verbatim>\<open>+=\<close> of \<^verbatim>\<open>Vec2\<close>.\<close>

definition cross2_b64 :: "Vec2 \<Rightarrow> Vec2 \<Rightarrow> real" where
  "cross2_b64 a b = fl (fl (vx a * vy b) - fl (vy a * vx b))"

definition vadd_b64 :: "Vec2 \<Rightarrow> Vec2 \<Rightarrow> Vec2" where
  "vadd_b64 a b = Vec2 (fl (vx a + vx b)) (fl (vy a + vy b))"

text \<open>
  The two comparisons of a candidate \<open>t\<close> with \<^verbatim>\<open>best_t\<close>: \<^verbatim>\<open>t < best_t - 1e-15\<close> and
  \<^verbatim>\<open>std::abs(t - best_t) <= 1e-15\<close>, the difference being rounded before it is compared.
\<close>

definition t_earlier_b64 :: "real \<Rightarrow> real option \<Rightarrow> bool" where
  "t_earlier_b64 t bt = (case bt of None \<Rightarrow> True | Some b \<Rightarrow> t < fl (b - TIE_TOL_b64))"

definition t_tied_b64 :: "real \<Rightarrow> real option \<Rightarrow> bool" where
  "t_tied_b64 t bt = (case bt of None \<Rightarrow> False | Some b \<Rightarrow> \<bar>fl (t - b)\<bar> \<le> TIE_TOL_b64)"

text \<open>The body of the \<^verbatim>\<open>for\<close> loop over the walls, and the loop.\<close>

definition scan_wall_b64 :: "Vec2 \<Rightarrow> Vec2 \<Rightarrow> nat \<Rightarrow> WallSegment \<Rightarrow> Scan \<Rightarrow> Scan" where
  "scan_wall_b64 p v i w st =
     (let a = p0 w; b = p1 w;
          s = Vec2 (fl (vx b - vx a)) (fl (vy b - vy a));
          denom = cross2_b64 v s
      in if \<bar>denom\<bar> \<le> EPS_DIR_b64 then st
         else
           let ap = Vec2 (fl (vx a - vx p)) (fl (vy a - vy p));
               t = fl (cross2_b64 ap s / denom)
           in if t \<le> EPS_POS_b64 \<or> t > fl (1 + EPS_POS_b64) then st
              else
                let u = fl (cross2_b64 ap v / denom)
                in if u < - EPS_POS_b64 \<or> u > fl (1 + EPS_POS_b64) then st
                   else if t_earlier_b64 t (best_t st) \<or>
                           (t_tied_b64 t (best_t st) \<and>
                            (wid w < hit_id st \<or> (wid w = hit_id st \<and> int i < best_idx st)))
                        then Scan (Some t) (int i) (wid w) (n_hat w)
                        else st)"

fun scan_walls_b64 :: "Vec2 \<Rightarrow> Vec2 \<Rightarrow> nat \<Rightarrow> WallSegment list \<Rightarrow> Scan \<Rightarrow> Scan" where
  "scan_walls_b64 p v i [] st = st"
| "scan_walls_b64 p v i (w # ws) st = scan_walls_b64 p v (Suc i) ws (scan_wall_b64 p v i w st)"

definition no_motion_b64 :: "Vec2 \<Rightarrow> bool" where
  "no_motion_b64 v \<longleftrightarrow> \<bar>vx v\<bar> \<le> EPS_DIR_b64 \<and> \<bar>vy v\<bar> \<le> EPS_DIR_b64"

text \<open>The body of the \<^verbatim>\<open>while\<close> loop, the loop, and \<^verbatim>\<open>advance_with_reflections\<close>.\<close>

definition loop_body_b64 :: "WallSegment list \<Rightarrow> Loop \<Rightarrow> Loop + Loop" where
  "loop_body_b64 ws l =
     (let p = pos l; v = rem l;
          st = scan_walls_b64 p v 0 ws scan_init
      in case best_t st of
           None \<Rightarrow> Inl (Loop (vadd_b64 p v) v (bounces l))
         | Some bt \<Rightarrow>
             if best_idx st < 0 then Inl (Loop (vadd_b64 p v) v (bounces l))
             else
               let p = vadd_b64 p (Vec2 (fl (vx v * bt)) (fl (vy v * bt)));
                   p = vadd_b64 p (Vec2 (fl (vx (hit_n st) * EPS_POS_b64))
                                        (fl (vy (hit_n st) * EPS_POS_b64)));
                   v_remain = Vec2 (fl (vx v * fl (1 - bt))) (fl (vy v * fl (1 - bt)));
                   v = reflect_b64 v_remain (hit_n st)
               in if no_motion_b64 v then Inl (Loop p v (bounces l + 1))
                  else Inr (Loop p v (bounces l + 1)))"

function advance_loop_b64 :: "WallSegment list \<Rightarrow> Loop \<Rightarrow> Loop" where
  "advance_loop_b64 ws l =
     (if bounces l < MAX_REFLECTIONS then
        case loop_body_b64 ws l of
          Inl l' \<Rightarrow> l'
        | Inr l' \<Rightarrow> advance_loop_b64 ws l'
      else l)"
  by pat_completeness auto
termination
  by (relation "measure (\<lambda>(ws, l). MAX_REFLECTIONS - bounces l)")
     (auto simp: loop_body_b64_def Let_def split: option.splits if_splits)

definition advance_b64 :: "Vec2 \<Rightarrow> Vec2 \<Rightarrow> ReflectingWorld \<Rightarrow> Vec2" where
  "advance_b64 x0 d world =
     (let p = x0; v = d
      in if no_motion_b64 v then p
         else pos (advance_loop_b64 (walls world) (Loop p v 0)))"

text \<open>
  Two vertical walls facing left, \<open>1153 * 2 ^ - 60\<close> (about \<^verbatim>\<open>1.00007e-15\<close>) apart, in both
  insertion orders: \<open>near_walls\<close> has the wall at \<open>x = 3 / 512\<close> (id \<open>0\<close>) first,
  \<open>near_walls_swapped\<close> has it second.
\<close>

definition wall_far :: WallSegment where
  "wall_far = WallSegment (Vec2 (3 / 2 ^ 9) (- 1)) (Vec2 (3 / 2 ^ 9) 1) (Vec2 (- 1) 0) 0"

definition wall_near :: WallSegment where
  "wall_near = WallSegment (Vec2 (6755399441054591 / 2 ^ 60) (- 1))
                 (Vec2 (6755399441054591 / 2 ^ 60) 1) (Vec2 (- 1) 0) 1"

definition near_walls :: ReflectingWorld where
  "near_walls = ReflectingWorld [wall_far, wall_near]"

definition near_walls_swapped :: ReflectingWorld where
  "near_walls_swapped = ReflectingWorld [wall_near, wall_far]"

declare advance_loop.simps [simp del]
declare iterations.simps [simp del]
declare advance_loop_b64.simps [simp del]

section \<open>Properties of the vector primitive\<close>

text \<open>
  C10.  Reflecting across the zero vector returns the incident vector unchanged; in
  particular the zero-vector sentinel that \<open>normalized\<close> returns whenever the norm of its
  input is at most \<open>eps\<close> acts as the identity when used as the normal.
\<close>

theorem reflect_zero_normal_identity:
  "reflect_across_unit_normal v (Vec2 0 0) = v
   \<and> (norm_vec u \<le> eps \<longrightarrow> normalized u eps = Vec2 0 0
        \<and> reflect_across_unit_normal v (normalized u eps) = v)"
  by (simp add: reflect_across_unit_normal_def normalized_def Let_def dot_def vsub_def vscale_def)

theorem reflect_zero_normal_identity_witness:
  "norm_vec (Vec2 (1 / 10 ^ 14) (- (1 / 10 ^ 14))) \<le> 1 / 10 ^ 12
   \<and> normalized (Vec2 (1 / 10 ^ 14) (- (1 / 10 ^ 14))) (1 / 10 ^ 12) = Vec2 0 0
   \<and> reflect_across_unit_normal (Vec2 3 4)
         (normalized (Vec2 (1 / 10 ^ 14) (- (1 / 10 ^ 14))) (1 / 10 ^ 12)) = Vec2 3 4
   \<and> reflect_across_unit_normal (Vec2 3 4) (Vec2 0 0) = Vec2 3 4"
proof -
  have h: "norm_vec (Vec2 (1 / 10 ^ 14) (- (1 / 10 ^ 14))) \<le> 1 / 10 ^ 12"
    unfolding norm_vec_def by (rule real_le_lsqrt) (simp_all add: power2_eq_square)
  from reflect_zero_normal_identity
         [of "Vec2 3 4" "Vec2 (1 / 10 ^ 14) (- (1 / 10 ^ 14))" "1 / 10 ^ 12"] h
  show ?thesis by blast
qed

section \<open>Early exit and the empty scene\<close>

lemma EPS_DIR_pos: "0 < EPS_DIR"
  by (simp add: EPS_DIR_def)

lemma EPS_POS_pos: "0 < EPS_POS"
  by (simp add: EPS_POS_def)


lemma abs_le_norm_vec: "\<bar>vx v\<bar> \<le> norm_vec v" "\<bar>vy v\<bar> \<le> norm_vec v"
proof -
  have "\<bar>vx v\<bar> = sqrt (vx v * vx v)" by simp
  also have "\<dots> \<le> sqrt (vx v * vx v + vy v * vy v)" by (rule real_sqrt_le_mono) simp
  finally show "\<bar>vx v\<bar> \<le> norm_vec v" by (simp add: norm_vec_def)
  have "\<bar>vy v\<bar> = sqrt (vy v * vy v)" by simp
  also have "\<dots> \<le> sqrt (vx v * vx v + vy v * vy v)" by (rule real_sqrt_le_mono) simp
  finally show "\<bar>vy v\<bar> \<le> norm_vec v" by (simp add: norm_vec_def)
qed

lemma small_norm_no_motion: "norm_vec v \<le> EPS_DIR \<Longrightarrow> no_motion v"
  unfolding no_motion_def using abs_le_norm_vec [of v] by linarith

lemma no_motion_norm_bound:
  assumes "no_motion v"
  shows "norm_vec v \<le> sqrt 2 * EPS_DIR"
proof -
  from assms have a: "\<bar>vx v\<bar> \<le> EPS_DIR" and b: "\<bar>vy v\<bar> \<le> EPS_DIR"
    by (simp_all add: no_motion_def)
  have e: "0 \<le> EPS_DIR" using EPS_DIR_pos by simp
  have "vx v * vx v = \<bar>vx v\<bar> * \<bar>vx v\<bar>" by simp
  also have "\<dots> \<le> EPS_DIR * EPS_DIR" by (rule mult_mono [OF a a e]) simp
  finally have 1: "vx v * vx v \<le> EPS_DIR * EPS_DIR" .
  have "vy v * vy v = \<bar>vy v\<bar> * \<bar>vy v\<bar>" by simp
  also have "\<dots> \<le> EPS_DIR * EPS_DIR" by (rule mult_mono [OF b b e]) simp
  finally have 2: "vy v * vy v \<le> EPS_DIR * EPS_DIR" .
  have "norm_vec v \<le> sqrt (2 * (EPS_DIR * EPS_DIR))"
    unfolding norm_vec_def by (rule real_sqrt_le_mono) (use 1 2 in linarith)
  also have "\<dots> = sqrt 2 * EPS_DIR"
    using e by (simp add: real_sqrt_mult)
  finally show ?thesis .
qed

lemma advance_no_motion: "no_motion d \<Longrightarrow> advance_with_reflections x0 d world = x0"
  by (simp add: advance_with_reflections_def)

lemma advance_motion:
  "\<not> no_motion d \<Longrightarrow>
   advance_with_reflections x0 d world = pos (advance_loop (walls world) (Loop x0 d 0))"
  by (simp add: advance_with_reflections_def)

lemma advance_loop_no_walls: "advance_loop [] (Loop p v 0) = Loop (vadd p v) v 0"
  by (simp add: advance_loop.simps loop_body_def MAX_REFLECTIONS_def scan_init_def)

lemma advance_empty:
  "advance_with_reflections x0 d (ReflectingWorld []) = (if no_motion d then x0 else vadd x0 d)"
  by (simp add: advance_no_motion advance_motion advance_loop_no_walls)

text \<open>
  C2 (as stated, refuted).  With an empty scene and the displacement \<open>(1e-13, 0)\<close> from the
  origin, the early exit leaves the position at the origin, which is not \<open>x + d\<close>.
\<close>

theorem empty_scene_small_step_counterexample:
  "advance_with_reflections (Vec2 0 0) (Vec2 (1 / 10 ^ 13) 0) (ReflectingWorld []) = Vec2 0 0
   \<and> vadd (Vec2 0 0) (Vec2 (1 / 10 ^ 13) 0) = Vec2 (1 / 10 ^ 13) 0
   \<and> advance_with_reflections (Vec2 0 0) (Vec2 (1 / 10 ^ 13) 0) (ReflectingWorld [])
       \<noteq> vadd (Vec2 0 0) (Vec2 (1 / 10 ^ 13) 0)"
  by (simp add: advance_empty no_motion_def EPS_DIR_def vadd_def)

text \<open>
  C2 (amended).  For every position \<open>x\<close> and every displacement \<open>d\<close> with
  \<open>|d.x| > EPS_DIR\<close> or \<open>|d.y| > EPS_DIR\<close>, advancing against an empty scene yields
  exactly \<open>x + d\<close>; for a displacement with both components within \<open>EPS_DIR\<close> the
  position stays \<open>x\<close>.
\<close>

theorem advance_empty_scene:
  "(EPS_DIR < \<bar>vx d\<bar> \<or> EPS_DIR < \<bar>vy d\<bar>
      \<longrightarrow> advance_with_reflections x0 d (ReflectingWorld []) = vadd x0 d)
   \<and> (\<bar>vx d\<bar> \<le> EPS_DIR \<and> \<bar>vy d\<bar> \<le> EPS_DIR
      \<longrightarrow> advance_with_reflections x0 d (ReflectingWorld []) = x0)"
  by (auto simp: advance_empty no_motion_def)

theorem advance_empty_scene_witness:
  "EPS_DIR < \<bar>vx (Vec2 1 0)\<bar>
   \<and> advance_with_reflections (Vec2 0 0) (Vec2 1 0) (ReflectingWorld []) = Vec2 1 0
   \<and> \<bar>vx (Vec2 (1 / 10 ^ 13) 0)\<bar> \<le> EPS_DIR \<and> \<bar>vy (Vec2 (1 / 10 ^ 13) 0)\<bar> \<le> EPS_DIR
   \<and> advance_with_reflections (Vec2 5 7) (Vec2 (1 / 10 ^ 13) 0) (ReflectingWorld []) = Vec2 5 7"
proof -
  have a: "EPS_DIR < \<bar>vx (Vec2 1 0)\<bar>" by (simp add: EPS_DIR_def)
  have b: "\<bar>vx (Vec2 (1 / 10 ^ 13) 0)\<bar> \<le> EPS_DIR \<and> \<bar>vy (Vec2 (1 / 10 ^ 13) 0)\<bar> \<le> EPS_DIR"
    by (simp add: EPS_DIR_def)
  from advance_empty_scene [of "Vec2 1 0" "Vec2 0 0"] a
  have "advance_with_reflections (Vec2 0 0) (Vec2 1 0) (ReflectingWorld []) = Vec2 1 0"
    by (simp add: vadd_def)
  moreover from advance_empty_scene [of "Vec2 (1 / 10 ^ 13) 0" "Vec2 5 7"] b
  have "advance_with_reflections (Vec2 5 7) (Vec2 (1 / 10 ^ 13) 0) (ReflectingWorld []) = Vec2 5 7"
    by blast
  ultimately show ?thesis using a b by blast
qed

text \<open>
  C3 (as stated, refuted).  The displacement \<open>(1e-12, 1e-12)\<close> has a Euclidean norm above
  the directional epsilon, and yet the early-exit test holds for it: the call returns the
  start position although a wall-free step would have moved it.
\<close>

theorem early_exit_norm_counterexample:
  "EPS_DIR < norm_vec (Vec2 (1 / 10 ^ 12) (1 / 10 ^ 12))
   \<and> no_motion (Vec2 (1 / 10 ^ 12) (1 / 10 ^ 12))
   \<and> advance_with_reflections (Vec2 0 0) (Vec2 (1 / 10 ^ 12) (1 / 10 ^ 12)) (ReflectingWorld [])
       = Vec2 0 0"
proof -
  have "EPS_DIR < norm_vec (Vec2 (1 / 10 ^ 12) (1 / 10 ^ 12))"
    unfolding norm_vec_def EPS_DIR_def by (rule real_less_rsqrt) (simp add: power2_eq_square)
  moreover have "no_motion (Vec2 (1 / 10 ^ 12) (1 / 10 ^ 12))"
    by (simp add: no_motion_def EPS_DIR_def)
  ultimately show ?thesis by (simp add: advance_empty)
qed

text \<open>
  C3 (amended).  For every position and every scene: if \<open>\<parallel>v\<parallel> \<le> EPS_DIR\<close> the early-exit
  test holds and the position is returned unchanged.  The test itself is component-wise
  (\<open>|v.x| \<le> EPS_DIR\<close> and \<open>|v.y| \<le> EPS_DIR\<close>): whenever it holds the position is unchanged,
  whenever it fails the result is that of the bounce loop, and it fails for every \<open>v\<close> with
  \<open>\<parallel>v\<parallel> > \<surd>2 \<cdot> EPS_DIR\<close>.
\<close>

theorem early_exit_componentwise:
  "(norm_vec v \<le> EPS_DIR \<longrightarrow> no_motion v \<and> advance_with_reflections x0 v world = x0)
   \<and> (no_motion v \<longleftrightarrow> \<bar>vx v\<bar> \<le> EPS_DIR \<and> \<bar>vy v\<bar> \<le> EPS_DIR)
   \<and> (no_motion v \<longrightarrow> advance_with_reflections x0 v world = x0)
   \<and> (\<not> no_motion v \<longrightarrow>
        advance_with_reflections x0 v world = pos (advance_loop (walls world) (Loop x0 v 0)))
   \<and> (sqrt 2 * EPS_DIR < norm_vec v \<longrightarrow> \<not> no_motion v)"
proof -
  have "sqrt 2 * EPS_DIR < norm_vec v \<longrightarrow> \<not> no_motion v"
    using no_motion_norm_bound [of v] by auto
  then show ?thesis
    using small_norm_no_motion [of v] advance_no_motion [of v x0 world]
      advance_motion [of v x0 world]
    by (auto simp: no_motion_def)
qed

theorem early_exit_componentwise_witness:
  "norm_vec (Vec2 0 0) \<le> EPS_DIR
   \<and> no_motion (Vec2 0 0)
   \<and> advance_with_reflections (Vec2 5 7) (Vec2 0 0) (ReflectingWorld unit_box) = Vec2 5 7
   \<and> sqrt 2 * EPS_DIR < norm_vec (Vec2 1 0)
   \<and> \<not> no_motion (Vec2 1 0)
   \<and> advance_with_reflections (Vec2 5 7) (Vec2 1 0) (ReflectingWorld [])
       = pos (advance_loop [] (Loop (Vec2 5 7) (Vec2 1 0) 0))"
proof -
  have a: "norm_vec (Vec2 0 0) \<le> EPS_DIR" by (simp add: norm_vec_def EPS_DIR_def)
  have "sqrt 2 * EPS_DIR \<le> 2 * EPS_DIR"
    using sqrt2_less_2 EPS_DIR_pos by (intro mult_right_mono) simp_all
  also have "\<dots> < 1" by (simp add: EPS_DIR_def)
  finally have b: "sqrt 2 * EPS_DIR < norm_vec (Vec2 1 0)" by (simp add: norm_vec_def)
  from early_exit_componentwise [of "Vec2 0 0" "Vec2 5 7" "ReflectingWorld unit_box"] a
  have 1: "no_motion (Vec2 0 0)"
    and 2: "advance_with_reflections (Vec2 5 7) (Vec2 0 0) (ReflectingWorld unit_box) = Vec2 5 7"
    by blast+
  from early_exit_componentwise [of "Vec2 1 0" "Vec2 5 7" "ReflectingWorld []"] b
  have 3: "\<not> no_motion (Vec2 1 0)"
    and 4: "advance_with_reflections (Vec2 5 7) (Vec2 1 0) (ReflectingWorld [])
       = pos (advance_loop (walls (ReflectingWorld [])) (Loop (Vec2 5 7) (Vec2 1 0) 0))"
    by blast+
  from a b 1 2 3 4 show ?thesis by simp
qed

section \<open>Builders\<close>


lemma normalize_vec_axes:
  "normalize_vec (Vec2 0 1) = Vec2 0 1"
  "normalize_vec (Vec2 1 0) = Vec2 1 0"
  "normalize_vec (Vec2 0 (- 1)) = Vec2 0 (- 1)"
  "normalize_vec (Vec2 (- 1) 0) = Vec2 (- 1) 0"
  "normalize_vec (Vec2 0 0) = Vec2 0 0"
  by (simp_all add: normalize_vec_def norm_vec_def EPS_DIR_def)

subsection \<open>The builders with and without assertions\<close>
















subsection \<open>The normal stored by the constructor and by the builders\<close>








section \<open>The scan selects the earliest hit\<close>

lemma scan_wall_hit_param:
  "scan_wall p v i w st =
     (case hit_param p v w of
        None \<Rightarrow> st
      | Some t \<Rightarrow>
          if t_earlier t (best_t st) \<or>
             (t_tied t (best_t st) \<and>
              (wid w < hit_id st \<or> (wid w = hit_id st \<and> int i < best_idx st)))
          then Scan (Some t) (int i) (wid w) (n_hat w)
          else st)"
  by (simp add: scan_wall_def hit_param_def Let_def)



lemma hit_times_Cons:
  "hit_times p v (w # ws) =
     (case hit_param p v w of None \<Rightarrow> hit_times p v ws | Some t \<Rightarrow> t # hit_times p v ws)"
  by (simp add: hit_times_def map_filter_def split: option.splits)



subsection \<open>The preference relation under the three outcomes of the comparison\<close>




subsection \<open>The invariant of the scan\<close>










subsection \<open>Horizontal motion against vertical walls\<close>

lemma hit_param_vertical:
  assumes "EPS_DIR < \<bar>c\<bar>"
  shows "hit_param (Vec2 a 0) (Vec2 c 0) (WallSegment (Vec2 X (- 1)) (Vec2 X 1) n i) =
     (if (X - a) / c \<le> EPS_POS \<or> (X - a) / c > 1 + EPS_POS then None else Some ((X - a) / c))"
proof -
  from assms EPS_DIR_pos have c0: "c \<noteq> 0" by auto
  from assms EPS_DIR_pos have d: "\<not> \<bar>c\<bar> * 2 \<le> EPS_DIR" by linarith
  have u: "c / (c * 2) = 1 / 2" using c0 by simp
  show ?thesis
    using d EPS_POS_pos by (simp add: hit_param_def cross2_def Let_def abs_mult u)
qed

subsection \<open>Candidates away from the tie threshold\<close>





section \<open>The bounce cap\<close>

lemma loop_body_Inr_bounces:
  "loop_body ws l = Inr l' \<Longrightarrow> bounces l' = bounces l + 1"
  by (auto simp: loop_body_def Let_def split: option.splits if_splits)

lemma loop_body_Inl_bounces:
  "loop_body ws l = Inl l' \<Longrightarrow> bounces l' = bounces l \<or> bounces l' = bounces l + 1"
  by (auto simp: loop_body_def Let_def split: option.splits if_splits)

lemma loop_body_hit:
  assumes "loop_body ws l = Inr l' \<or> loop_body ws l = Inl l'"
    and "bounces l' = bounces l + 1"
  shows "hit_outcome ws l = Some l'"
  using assms
  by (auto simp: loop_body_def hit_outcome_def Let_def vscale_def split: option.splits if_splits)

lemma advance_loop_bounces_le:
  "bounces l \<le> MAX_REFLECTIONS \<Longrightarrow> bounces (advance_loop ws l) \<le> MAX_REFLECTIONS"
proof (induction ws l rule: advance_loop.induct)
  case (1 ws l)
  show ?case
  proof (cases "bounces l < MAX_REFLECTIONS")
    case False
    with "1.prems" show ?thesis by (simp add: advance_loop.simps [of ws l])
  next
    case True
    show ?thesis
    proof (cases "loop_body ws l")
      case (Inl l')
      with True loop_body_Inl_bounces [OF Inl] show ?thesis
        by (auto simp: advance_loop.simps [of ws l])
    next
      case (Inr l')
      from loop_body_Inr_bounces [OF Inr] True have "bounces l' \<le> MAX_REFLECTIONS" by simp
      from "1.IH" [OF True Inr this] True Inr show ?thesis
        by (simp add: advance_loop.simps [of ws l])
    qed
  qed
qed

lemma iterations_le: "iterations ws l \<le> MAX_REFLECTIONS - bounces l"
proof (induction ws l rule: iterations.induct)
  case (1 ws l)
  show ?case
  proof (cases "bounces l < MAX_REFLECTIONS")
    case False
    then show ?thesis by (simp add: iterations.simps [of ws l])
  next
    case True
    show ?thesis
    proof (cases "loop_body ws l")
      case (Inl l')
      with True show ?thesis by (simp add: iterations.simps [of ws l])
    next
      case (Inr l')
      from "1.IH" [OF True Inr] loop_body_Inr_bounces [OF Inr] True Inr show ?thesis
        by (simp add: iterations.simps [of ws l])
    qed
  qed
qed

lemma steps_bounces: "steps k ws l = Some l' \<Longrightarrow> bounces l' = bounces l + k"
proof (induction k arbitrary: l)
  case 0
  then show ?case by simp
next
  case (Suc k)
  from Suc.prems obtain l1 where b: "bounces l < MAX_REFLECTIONS"
    and lb: "loop_body ws l = Inr l1" and st: "steps k ws l1 = Some l'"
    by (auto split: if_splits sum.splits)
  from Suc.IH [OF st] loop_body_Inr_bounces [OF lb] show ?case by simp
qed

lemma steps_Suc_Inr:
  "bounces l < MAX_REFLECTIONS \<Longrightarrow> loop_body ws l = Inr l' \<Longrightarrow> steps (Suc k) ws l = steps k ws l'"
  by simp

lemma advance_loop_cap:
  assumes "bounces l < MAX_REFLECTIONS"
    and "bounces (advance_loop ws l) = MAX_REFLECTIONS"
  shows "\<exists>l0. steps (MAX_REFLECTIONS - 1 - bounces l) ws l = Some l0
              \<and> hit_outcome ws l0 = Some (advance_loop ws l)"
  using assms
proof (induction ws l rule: advance_loop.induct)
  case (1 ws l)
  note lt = "1.prems"(1)
  show ?case
  proof (cases "loop_body ws l")
    case (Inl l')
    with lt have fin: "advance_loop ws l = l'" by (simp add: advance_loop.simps [of ws l])
    with "1.prems" loop_body_Inl_bounces [OF Inl] have b: "bounces l' = bounces l + 1" by auto
    from loop_body_hit [of ws l l'] Inl b have h: "hit_outcome ws l = Some l'" by simp
    from b fin "1.prems"(2) have "MAX_REFLECTIONS - 1 - bounces l = 0" by simp
    with h fin show ?thesis by simp
  next
    case (Inr l')
    with lt have fin: "advance_loop ws l = advance_loop ws l'"
      by (simp add: advance_loop.simps [of ws l])
    have b: "bounces l' = bounces l + 1" by (rule loop_body_Inr_bounces [OF Inr])
    show ?thesis
    proof (cases "bounces l' < MAX_REFLECTIONS")
      case True
      from "1.IH" [OF lt Inr True] "1.prems"(2) fin obtain l0
        where s: "steps (MAX_REFLECTIONS - 1 - bounces l') ws l' = Some l0"
          and h: "hit_outcome ws l0 = Some (advance_loop ws l)"
        by auto
      from True b have "MAX_REFLECTIONS - 1 - bounces l = Suc (MAX_REFLECTIONS - 1 - bounces l')"
        by simp
      with s steps_Suc_Inr [OF lt Inr] have "steps (MAX_REFLECTIONS - 1 - bounces l) ws l = Some l0"
        by simp
      with h show ?thesis by blast
    next
      case False
      then have stop: "advance_loop ws l' = l'" by (simp add: advance_loop.simps [of ws l'])
      from loop_body_hit [of ws l l'] Inr b have h: "hit_outcome ws l = Some l'" by simp
      from False b lt have "MAX_REFLECTIONS - 1 - bounces l = 0" by simp
      with h fin stop show ?thesis by simp
    qed
  qed
qed

subsection \<open>A run that reaches the cap\<close>

lemma EPS_POS_bounds: "EPS_POS * 10 ^ 6 < 1 / 2"
  by (simp add: EPS_POS_def)

lemma scan_corridor_right:
  assumes "0 \<le> a" "a \<le> 1 / 2" "2 \<le> c" "c \<le> 10 ^ 6"
  shows "scan_walls (Vec2 a 0) (Vec2 c 0) 0 corridor scan_init
       = Scan (Some ((1 - a) / c)) 1 1 (Vec2 (- 1) 0)"
proof -
  from assms have big: "EPS_DIR < \<bar>c\<bar>" by (simp add: EPS_DIR_def)
  from assms have c: "0 < c" by simp
  have z0: "0 \<le> EPS_POS * c" using EPS_POS_pos c by simp
  have "EPS_POS * c \<le> EPS_POS * 10 ^ 6"
    using assms(4) EPS_POS_pos by (intro mult_left_mono) simp_all
  with EPS_POS_bounds have z1: "EPS_POS * c < 1 / 2" by linarith
  have "0 - a \<le> EPS_POS * c" using assms z0 by linarith
  then have t0: "(0 - a) / c \<le> EPS_POS" by (simp only: pos_divide_le_eq [OF c])
  have "EPS_POS * c < 1 - a" using assms z1 by linarith
  then have "EPS_POS < (1 - a) / c" by (simp only: pos_less_divide_eq [OF c])
  then have t1: "\<not> (1 - a) / c \<le> EPS_POS" by simp
  have "1 - a \<le> (1 + EPS_POS) * c" using assms z0 by (simp add: algebra_simps)
  then have "(1 - a) / c \<le> 1 + EPS_POS" by (simp only: pos_divide_le_eq [OF c])
  then have t2: "\<not> (1 - a) / c > 1 + EPS_POS" by simp
  show ?thesis
    using t0 t1 t2
    by (simp add: corridor_def numeral_2_eq_2 scan_wall_hit_param hit_param_vertical [OF big]
          scan_init_def t_earlier_def)
qed

lemma scan_corridor_left:
  assumes "1 / 2 \<le> a" "a \<le> 1" "c \<le> - 2" "- (10 ^ 6) \<le> c"
  shows "scan_walls (Vec2 a 0) (Vec2 c 0) 0 corridor scan_init
       = Scan (Some ((0 - a) / c)) 0 0 (Vec2 1 0)"
proof -
  from assms have big: "EPS_DIR < \<bar>c\<bar>" by (simp add: EPS_DIR_def)
  from assms have c: "c < 0" by simp
  have z0: "EPS_POS * c \<le> 0" using EPS_POS_pos c by (simp add: mult_le_0_iff)
  have "EPS_POS * (- c) \<le> EPS_POS * 10 ^ 6"
    using assms(4) EPS_POS_pos by (intro mult_left_mono) simp_all
  with EPS_POS_bounds have z1: "- (1 / 2) < EPS_POS * c" by simp
  have "EPS_POS * c \<le> 1 - a" using assms z0 by linarith
  then have t0: "(1 - a) / c \<le> EPS_POS" by (simp only: neg_divide_le_eq [OF c])
  have "0 - a < EPS_POS * c" using assms z1 by linarith
  then have "EPS_POS < (0 - a) / c" by (simp only: neg_less_divide_eq [OF c])
  then have t1: "\<not> (0 - a) / c \<le> EPS_POS" by simp
  have "(1 + EPS_POS) * c \<le> 0 - a" using assms z0 by (simp add: algebra_simps)
  then have "(0 - a) / c \<le> 1 + EPS_POS" by (simp only: neg_divide_le_eq [OF c])
  then have t2: "\<not> (0 - a) / c > 1 + EPS_POS" by simp
  show ?thesis
    using t0 t1 t2
    by (simp add: corridor_def numeral_2_eq_2 scan_wall_hit_param hit_param_vertical [OF big]
          scan_init_def t_earlier_def t_tied_def)
qed

lemma loop_body_corridor_right:
  assumes "0 \<le> a" "a \<le> 1 / 2" "2 \<le> c" "c \<le> 10 ^ 6"
  shows "loop_body corridor (Loop (Vec2 a 0) (Vec2 c 0) n)
       = Inr (Loop (Vec2 (1 - EPS_POS) 0) (Vec2 (- (c - (1 - a))) 0) (n + 1))"
proof -
  from assms have c: "c \<noteq> 0" by simp
  have m: "c * ((1 - a) / c) = 1 - a" using c by simp
  have r: "c * (1 - (1 - a) / c) = c - (1 - a)" using c by (simp add: field_simps)
  have nm: "\<not> no_motion (Vec2 (- (c - (1 - a))) 0)"
    using assms by (simp add: no_motion_def EPS_DIR_def)
  show ?thesis
    using nm c
    by (simp add: loop_body_def scan_corridor_right [OF assms] Let_def vadd_def m r
          reflect_across_unit_normal_def dot_def vsub_def vscale_def)
qed

lemma loop_body_corridor_left:
  assumes "1 / 2 \<le> a" "a \<le> 1" "c \<le> - 2" "- (10 ^ 6) \<le> c"
  shows "loop_body corridor (Loop (Vec2 a 0) (Vec2 c 0) n)
       = Inr (Loop (Vec2 EPS_POS 0) (Vec2 (- (c + a)) 0) (n + 1))"
proof -
  from assms have c: "c \<noteq> 0" by simp
  have m: "c * ((0 - a) / c) = 0 - a" using c by simp
  have r: "c * (1 + a / c) = c + a" using c by (simp add: field_simps)
  have nm: "\<not> no_motion (Vec2 (- (c + a)) 0)"
    using assms by (simp add: no_motion_def EPS_DIR_def)
  show ?thesis
    using nm c
    by (simp add: loop_body_def scan_corridor_left [OF assms] Let_def vadd_def m r
          reflect_across_unit_normal_def dot_def vsub_def vscale_def)
qed

lemma corridor_run:
  "advance_loop corridor (Loop (Vec2 (1 / 2) 0) (Vec2 1000 0) 0)
   = Loop (Vec2 (1 / 10 ^ 12) 0) (Vec2 (936500000000063 / 10 ^ 12) 0) 64"
  by (simp add: advance_loop.simps loop_body_corridor_right loop_body_corridor_left
        EPS_POS_def MAX_REFLECTIONS_def)

lemma corridor_iterations:
  "iterations corridor (Loop (Vec2 (1 / 2) 0) (Vec2 1000 0) 0) = 64"
  by (simp add: iterations.simps loop_body_corridor_right loop_body_corridor_left
        EPS_POS_def MAX_REFLECTIONS_def)

lemma corridor_steps:
  "steps 63 corridor (Loop (Vec2 (1 / 2) 0) (Vec2 1000 0) 0)
   = Some (Loop (Vec2 (1 - 1 / 10 ^ 12) 0) (Vec2 (- (937500000000062 / 10 ^ 12)) 0) 63)"
  by (simp add: numeral_eq_Suc loop_body_corridor_right loop_body_corridor_left
        EPS_POS_def MAX_REFLECTIONS_def)

text \<open>
  C5.  The loop of \<open>advance_with_reflections\<close> is a total function: it returns for every
  input, and the result is a position (there is no error value).  Its body is executed
  at most \<open>MAX_REFLECTIONS = 64\<close> times and the bounce counter never exceeds 64.  When
  the counter reaches 64, the run has executed the body 63 times to its end, reaching a
  state \<open>l\<close>, and the value returned is the position that the hit processed from \<open>l\<close>
  computes (the contact point \<open>p + t\<cdot>v\<close> of that 64th hit, moved by the nudge
  \<open>EPS_POS\<cdot>n\<close>); the remaining displacement computed by that hit is not applied.
\<close>

theorem advance_bounce_cap:
  "iterations (walls world) (Loop x0 d 0) \<le> MAX_REFLECTIONS
   \<and> MAX_REFLECTIONS = 64
   \<and> bounces (advance_loop (walls world) (Loop x0 d 0)) \<le> MAX_REFLECTIONS
   \<and> (\<not> no_motion d \<and> bounces (advance_loop (walls world) (Loop x0 d 0)) = MAX_REFLECTIONS
       \<longrightarrow> (\<exists>l. steps 63 (walls world) (Loop x0 d 0) = Some l
              \<and> bounces l = 63
              \<and> hit_outcome (walls world) l = Some (advance_loop (walls world) (Loop x0 d 0))
              \<and> advance_with_reflections x0 d world
                  = pos (advance_loop (walls world) (Loop x0 d 0))))"
proof -
  let ?f = "advance_loop (walls world) (Loop x0 d 0)"
  have 1: "iterations (walls world) (Loop x0 d 0) \<le> MAX_REFLECTIONS"
    using iterations_le [of "walls world" "Loop x0 d 0"] by simp
  have 2: "bounces ?f \<le> MAX_REFLECTIONS"
    by (rule advance_loop_bounces_le) simp
  have 3: "\<exists>l. steps 63 (walls world) (Loop x0 d 0) = Some l \<and> bounces l = 63
              \<and> hit_outcome (walls world) l = Some ?f
              \<and> advance_with_reflections x0 d world = pos ?f"
    if h: "\<not> no_motion d \<and> bounces ?f = MAX_REFLECTIONS"
  proof -
    have "bounces (Loop x0 d 0) < MAX_REFLECTIONS" by (simp add: MAX_REFLECTIONS_def)
    from advance_loop_cap [OF this] h obtain l0
      where s: "steps 63 (walls world) (Loop x0 d 0) = Some l0"
        and o: "hit_outcome (walls world) l0 = Some ?f"
      by (auto simp: MAX_REFLECTIONS_def)
    from steps_bounces [OF s] have "bounces l0 = 63" by simp
    with s o h show ?thesis by (simp add: advance_motion)
  qed
  from 1 2 3 show ?thesis by (simp add: MAX_REFLECTIONS_def)
qed

theorem advance_bounce_cap_witness:
  "\<not> no_motion (Vec2 1000 0)
   \<and> iterations corridor (Loop (Vec2 (1 / 2) 0) (Vec2 1000 0) 0) = 64
   \<and> advance_loop corridor (Loop (Vec2 (1 / 2) 0) (Vec2 1000 0) 0)
       = Loop (Vec2 (1 / 10 ^ 12) 0) (Vec2 (936500000000063 / 10 ^ 12) 0) 64
   \<and> steps 63 corridor (Loop (Vec2 (1 / 2) 0) (Vec2 1000 0) 0)
       = Some (Loop (Vec2 (1 - 1 / 10 ^ 12) 0) (Vec2 (- (937500000000062 / 10 ^ 12)) 0) 63)
   \<and> hit_outcome corridor
         (Loop (Vec2 (1 - 1 / 10 ^ 12) 0) (Vec2 (- (937500000000062 / 10 ^ 12)) 0) 63)
       = Some (Loop (Vec2 (1 / 10 ^ 12) 0) (Vec2 (936500000000063 / 10 ^ 12) 0) 64)
   \<and> advance_with_reflections (Vec2 (1 / 2) 0) (Vec2 1000 0) (ReflectingWorld corridor)
       = Vec2 (1 / 10 ^ 12) 0"
proof -
  have nm: "\<not> no_motion (Vec2 1000 0)" by (simp add: no_motion_def EPS_DIR_def)
  have b: "bounces (advance_loop (walls (ReflectingWorld corridor))
             (Loop (Vec2 (1 / 2) 0) (Vec2 1000 0) 0)) = MAX_REFLECTIONS"
    by (simp add: corridor_run MAX_REFLECTIONS_def)
  from advance_bounce_cap [of "ReflectingWorld corridor" "Vec2 (1 / 2) 0" "Vec2 1000 0"] nm b
  obtain l where s: "steps 63 (walls (ReflectingWorld corridor))
                       (Loop (Vec2 (1 / 2) 0) (Vec2 1000 0) 0) = Some l"
    and o: "hit_outcome (walls (ReflectingWorld corridor)) l
              = Some (advance_loop (walls (ReflectingWorld corridor))
                       (Loop (Vec2 (1 / 2) 0) (Vec2 1000 0) 0))"
    and r: "advance_with_reflections (Vec2 (1 / 2) 0) (Vec2 1000 0) (ReflectingWorld corridor)
              = pos (advance_loop (walls (ReflectingWorld corridor))
                       (Loop (Vec2 (1 / 2) 0) (Vec2 1000 0) 0))"
    by blast
  from s have l: "l = Loop (Vec2 (1 - 1 / 10 ^ 12) 0) (Vec2 (- (937500000000062 / 10 ^ 12)) 0) 63"
    by (simp add: corridor_steps)
  from o l have o': "hit_outcome corridor
         (Loop (Vec2 (1 - 1 / 10 ^ 12) 0) (Vec2 (- (937500000000062 / 10 ^ 12)) 0) 63)
       = Some (Loop (Vec2 (1 / 10 ^ 12) 0) (Vec2 (936500000000063 / 10 ^ 12) 0) 64)"
    by (simp add: corridor_run)
  from r have r': "advance_with_reflections (Vec2 (1 / 2) 0) (Vec2 1000 0) (ReflectingWorld corridor)
       = Vec2 (1 / 10 ^ 12) 0"
    by (simp add: corridor_run)
  from nm corridor_iterations corridor_run corridor_steps o' r' show ?thesis by blast
qed

section \<open>The unit box\<close>

lemma add_inward_box_unit:
  "add_inward_box ndebug 0 1 0 1 100 (ReflectingWorld []) = Inr (ReflectingWorld unit_box)"
  by (simp add: add_inward_box_def add_segment_def normalize_vec_axes EPS_DIR_def unit_box_def
        Let_def)

lemmas scan_eval =
  scan_wall_def cross2_def scan_init_def t_earlier_def t_tied_def
  EPS_DIR_def EPS_POS_def TIE_TOL_def Let_def

lemmas body_eval =
  loop_body_def vadd_def reflect_across_unit_normal_def dot_def vsub_def vscale_def
  no_motion_def

lemma corner_first_bounce:
  "loop_body unit_box (Loop (Vec2 (1 / 2) (1 / 2)) (Vec2 1 1) 0)
   = Inr (Loop (Vec2 (999999999999 / 1000000000000) 1) (Vec2 (- (1 / 2)) (1 / 2)) (Suc 0))"
  by (simp add: unit_box_def scan_eval body_eval)

lemma corner_second_scan:
  "hit_times (Vec2 (999999999999 / 1000000000000) 1) (Vec2 (- (1 / 2)) (1 / 2)) unit_box = []"
  by (simp add: unit_box_def hit_times_Cons hit_times_def hit_param_def cross2_def
        EPS_DIR_def EPS_POS_def)

lemma corner_second_iteration:
  "loop_body unit_box (Loop (Vec2 (999999999999 / 1000000000000) 1) (Vec2 (- (1 / 2)) (1 / 2)) (Suc 0))
   = Inl (Loop (Vec2 (499999999999 / 1000000000000) (3 / 2)) (Vec2 (- (1 / 2)) (1 / 2)) (Suc 0))"
  by (simp add: unit_box_def scan_eval body_eval)

text \<open>
  C1 (the code departs from the claim).  In the box built by
  \<open>add_inward_box(0, 1, 0, 1, 100)\<close>, from the interior point \<open>(1/2, 1/2)\<close> the
  displacement \<open>(1, 1)\<close> reaches the corner \<open>(1, 1)\<close>: the right wall and the top wall tie
  at \<open>t = 1/2\<close> and the right wall (lower id) is taken.  The position is nudged off the
  right wall only and stays on the line of the top wall, so in the next scan the top wall
  has \<open>t = 0\<close>, is rejected by the test \<open>t \<le> EPS_POS\<close>, and no wall is a candidate: the
  remaining displacement \<open>(-1/2, 1/2)\<close> is applied in full and the final position has
  \<open>y = 3/2\<close>.  Likewise from \<open>(1 - 1e-12, 1/2)\<close>, a position the nudge produces, the
  displacement \<open>(2, 0)\<close> meets the right wall at \<open>t = 5e-13 \<le> EPS_POS\<close> and ends at
  \<open>x = 3 - 1e-12\<close>.
\<close>

theorem box_corner_escape:
  "add_inward_box ndebug 0 1 0 1 100 (ReflectingWorld []) = Inr (ReflectingWorld unit_box)
   \<and> advance_with_reflections (Vec2 (1 / 2) (1 / 2)) (Vec2 1 1) (ReflectingWorld unit_box)
       = Vec2 (1 / 2 - 1 / 10 ^ 12) (3 / 2)
   \<and> advance_with_reflections (Vec2 (1 - 1 / 10 ^ 12) (1 / 2)) (Vec2 2 0) (ReflectingWorld unit_box)
       = Vec2 (3 - 1 / 10 ^ 12) (1 / 2)"
proof -
  have nm: "\<not> no_motion (Vec2 1 1)" "\<not> no_motion (Vec2 2 0)"
    by (simp_all add: no_motion_def EPS_DIR_def)
  have a: "advance_with_reflections (Vec2 (1 / 2) (1 / 2)) (Vec2 1 1) (ReflectingWorld unit_box)
       = Vec2 (1 / 2 - 1 / 10 ^ 12) (3 / 2)"
    by (simp add: advance_motion [OF nm(1)] advance_loop.simps [of unit_box]
          corner_first_bounce corner_second_iteration MAX_REFLECTIONS_def)
  have "loop_body unit_box (Loop (Vec2 (999999999999 / 1000000000000) (1 / 2)) (Vec2 2 0) 0)
       = Inl (Loop (Vec2 (2999999999999 / 1000000000000) (1 / 2)) (Vec2 2 0) 0)"
    by (simp add: unit_box_def scan_eval body_eval)
  then have b: "advance_with_reflections (Vec2 (1 - 1 / 10 ^ 12) (1 / 2)) (Vec2 2 0)
                  (ReflectingWorld unit_box) = Vec2 (3 - 1 / 10 ^ 12) (1 / 2)"
    by (simp add: advance_motion [OF nm(2)] advance_loop.simps [of unit_box]
          MAX_REFLECTIONS_def)
  from add_inward_box_unit [of ndebug] a b show ?thesis by simp
qed

theorem box_corner_escape_witness:
  "0 < vx (Vec2 (1 / 2) (1 / 2)) \<and> vx (Vec2 (1 / 2) (1 / 2)) < 1
   \<and> 0 < vy (Vec2 (1 / 2) (1 / 2)) \<and> vy (Vec2 (1 / 2) (1 / 2)) < 1
   \<and> add_inward_box False 0 1 0 1 100 (ReflectingWorld []) = Inr (ReflectingWorld unit_box)
   \<and> 1 < vy (advance_with_reflections (Vec2 (1 / 2) (1 / 2)) (Vec2 1 1) (ReflectingWorld unit_box))
   \<and> 1 < vx (advance_with_reflections (Vec2 (1 - 1 / 10 ^ 12) (1 / 2)) (Vec2 2 0)
              (ReflectingWorld unit_box))"
  using box_corner_escape [of False] by simp

section \<open>Properties of the binary64 rounding\<close>


lemma rne_eqI:
  assumes "\<bar>y - of_int m\<bar> < 1 / 2"
  shows "rne y = m"
proof (cases "of_int m \<le> y")
  case True
  with assms have "\<lfloor>y\<rfloor> = m" by (intro floor_unique) auto
  with assms True show ?thesis by (simp add: rne_def)
next
  case False
  with assms have f: "\<lfloor>y\<rfloor> = m - 1" by (intro floor_unique) auto
  from assms False have "1 / 2 < y - of_int (m - 1)" by simp
  with f show ?thesis by (simp add: rne_def)
qed





lemma expo_from_eqI:
  "e0 \<le> e \<Longrightarrow> e \<le> e0 + int k \<Longrightarrow> 2 powi e \<le> \<bar>x\<bar> \<Longrightarrow> \<bar>x\<bar> < 2 powi (e + 1)
   \<Longrightarrow> expo_from k e0 x = e"
proof (induction k arbitrary: e0)
  case 0
  then show ?case by simp
next
  case (Suc k)
  show ?case
  proof (cases "\<bar>x\<bar> < 2 powi (e0 + 1)")
    case True
    have "e = e0"
    proof (rule ccontr)
      assume "e \<noteq> e0"
      with Suc.prems have "e0 + 1 \<le> e" by simp
      then have "(2::real) powi (e0 + 1) \<le> 2 powi e" by (intro power_int_increasing) auto
      with True Suc.prems show False by simp
    qed
    with True show ?thesis by simp
  next
    case False
    have "e \<noteq> e0" using False Suc.prems by auto
    with Suc.prems have "e0 + 1 \<le> e" "e \<le> (e0 + 1) + int k" by simp_all
    from Suc.IH [OF this Suc.prems(3,4)] False show ?thesis by simp
  qed
qed



lemma expo_eqI:
  "- 1022 \<le> e \<Longrightarrow> e \<le> 1023 \<Longrightarrow> 2 powi e \<le> \<bar>x\<bar> \<Longrightarrow> \<bar>x\<bar> < 2 powi (e + 1) \<Longrightarrow> expo x = e"
  unfolding expo_def by (rule expo_from_eqI) auto



lemma fl_eqI:
  assumes "- 1022 \<le> e" "e \<le> 1023" "2 powi e \<le> \<bar>x\<bar>" "\<bar>x\<bar> < 2 powi (e + 1)"
    and "\<bar>x / 2 powi (e - 52) - of_int m\<bar> < 1 / 2"
    and "y = of_int m * 2 powi (e - 52)"
  shows "fl x = y"
  using expo_eqI [OF assms(1-4)] rne_eqI [OF assms(5)] assms(6) by (simp add: fl_def)

lemma fl_0: "fl 0 = 0"
  by (simp add: fl_def rne_def)







section \<open>The reflection in binary64\<close>















subsection \<open>A unit normal that is not axis-aligned\<close>
























section \<open>The tie threshold in binary64\<close>

lemma near_walls_fl_1: "fl (1 / 10 ^ 12) = (4951760157141521 / 2 ^ 92)"
  by (rule fl_eqI [where e = "- 40" and m = "4951760157141521"]) simp_all

lemma near_walls_fl_2: "\<not> ((\<bar>1\<bar> :: real) \<le> (4951760157141521 / 2 ^ 92))"
  by simp

lemma near_walls_fl_3: "(\<bar>0\<bar> :: real) \<le> (4951760157141521 / 2 ^ 92)"
  by simp

lemma near_walls_fl_4: "fl ((3 / 2 ^ 9) - (3 / 2 ^ 9)) = 0"
  by (simp add: fl_0)

lemma near_walls_fl_5: "fl (1 - (- 1)) = 2"
  by (rule fl_eqI [where e = "1" and m = "4503599627370496"]) simp_all

lemma near_walls_fl_6: "fl (1 * 2) = 2"
  by (rule fl_eqI [where e = "1" and m = "4503599627370496"]) simp_all

lemma near_walls_fl_7: "fl (0 * 0) = 0"
  by (simp add: fl_0)

lemma near_walls_fl_8: "fl (2 - 0) = 2"
  by (rule fl_eqI [where e = "1" and m = "4503599627370496"]) simp_all

lemma near_walls_fl_9: "\<not> ((\<bar>2\<bar> :: real) \<le> (4951760157141521 / 2 ^ 92))"
  by simp

lemma near_walls_fl_10: "fl ((3 / 2 ^ 9) - 0) = (3 / 2 ^ 9)"
  by (rule fl_eqI [where e = "- 8" and m = "6755399441055744"]) simp_all

lemma near_walls_fl_11: "fl ((- 1) - 0) = (- 1)"
  by (rule fl_eqI [where e = "0" and m = "- 4503599627370496"]) simp_all

lemma near_walls_fl_12: "fl ((3 / 2 ^ 9) * 2) = (3 / 2 ^ 8)"
  by (rule fl_eqI [where e = "- 7" and m = "6755399441055744"]) simp_all

lemma near_walls_fl_13: "fl ((- 1) * 0) = 0"
  by (simp add: fl_0)

lemma near_walls_fl_14: "fl ((3 / 2 ^ 8) - 0) = (3 / 2 ^ 8)"
  by (rule fl_eqI [where e = "- 7" and m = "6755399441055744"]) simp_all

lemma near_walls_fl_15: "fl ((3 / 2 ^ 8) / 2) = (3 / 2 ^ 9)"
  by (rule fl_eqI [where e = "- 8" and m = "6755399441055744"]) simp_all

lemma near_walls_fl_16: "\<not> (((3 / 2 ^ 9) :: real) \<le> (4951760157141521 / 2 ^ 92))"
  by simp

lemma near_walls_fl_17: "fl (1 + (4951760157141521 / 2 ^ 92)) = (562949953421875 / 2 ^ 49)"
  by (rule fl_eqI [where e = "0" and m = "4503599627375000"]) simp_all

lemma near_walls_fl_18: "\<not> (((562949953421875 / 2 ^ 49) :: real) < (3 / 2 ^ 9))"
  by simp

lemma near_walls_fl_19: "fl ((3 / 2 ^ 9) * 0) = 0"
  by (simp add: fl_0)

lemma near_walls_fl_20: "fl ((- 1) * 1) = (- 1)"
  by (rule fl_eqI [where e = "0" and m = "- 4503599627370496"]) simp_all

lemma near_walls_fl_21: "fl (0 - (- 1)) = 1"
  by (rule fl_eqI [where e = "0" and m = "4503599627370496"]) simp_all

lemma near_walls_fl_22: "fl (1 / 2) = (1 / 2 ^ 1)"
  by (rule fl_eqI [where e = "- 1" and m = "4503599627370496"]) simp_all

lemma near_walls_fl_23: "\<not> (((1 / 2 ^ 1) :: real) < - (4951760157141521 / 2 ^ 92))"
  by simp

lemma near_walls_fl_24: "\<not> (((562949953421875 / 2 ^ 49) :: real) < (1 / 2 ^ 1))"
  by simp

lemma near_walls_fl_25: "fl ((6755399441054591 / 2 ^ 60) - (6755399441054591 / 2 ^ 60)) = 0"
  by (simp add: fl_0)

lemma near_walls_fl_26: "fl ((6755399441054591 / 2 ^ 60) - 0) = (6755399441054591 / 2 ^ 60)"
  by (rule fl_eqI [where e = "- 8" and m = "6755399441054591"]) simp_all

lemma near_walls_fl_27: "fl ((6755399441054591 / 2 ^ 60) * 2) = (6755399441054591 / 2 ^ 59)"
  by (rule fl_eqI [where e = "- 7" and m = "6755399441054591"]) simp_all

lemma near_walls_fl_28: "fl ((6755399441054591 / 2 ^ 59) - 0) = (6755399441054591 / 2 ^ 59)"
  by (rule fl_eqI [where e = "- 7" and m = "6755399441054591"]) simp_all

lemma near_walls_fl_29: "fl ((6755399441054591 / 2 ^ 59) / 2) = (6755399441054591 / 2 ^ 60)"
  by (rule fl_eqI [where e = "- 8" and m = "6755399441054591"]) simp_all

lemma near_walls_fl_30: "\<not> (((6755399441054591 / 2 ^ 60) :: real) \<le> (4951760157141521 / 2 ^ 92))"
  by simp

lemma near_walls_fl_31: "\<not> (((562949953421875 / 2 ^ 49) :: real) < (6755399441054591 / 2 ^ 60))"
  by simp

lemma near_walls_fl_32: "fl ((6755399441054591 / 2 ^ 60) * 0) = 0"
  by (simp add: fl_0)

lemma near_walls_fl_33: "fl (1 / 10 ^ 15) = (2535301200456459 / 2 ^ 101)"
  by (rule fl_eqI [where e = "- 50" and m = "5070602400912918"]) simp_all

lemma near_walls_fl_34: "fl ((3 / 2 ^ 9) - (2535301200456459 / 2 ^ 101)) = (6755399441054591 / 2 ^ 60)"
  by (rule fl_eqI [where e = "- 8" and m = "6755399441054591"]) simp_all

lemma near_walls_fl_35: "\<not> (((6755399441054591 / 2 ^ 60) :: real) < (6755399441054591 / 2 ^ 60))"
  by simp

lemma near_walls_fl_36: "fl ((6755399441054591 / 2 ^ 60) - (3 / 2 ^ 9)) = (- (1153 / 2 ^ 60))"
  by (rule fl_eqI [where e = "- 50" and m = "- 5070947627302912"]) simp_all

lemma near_walls_fl_37: "\<not> ((\<bar>(- (1153 / 2 ^ 60))\<bar> :: real) \<le> (2535301200456459 / 2 ^ 101))"
  by simp

lemma near_walls_fl_38: "fl (1 * (3 / 2 ^ 9)) = (3 / 2 ^ 9)"
  by (rule fl_eqI [where e = "- 8" and m = "6755399441055744"]) simp_all

lemma near_walls_fl_39: "fl (0 * (3 / 2 ^ 9)) = 0"
  by (simp add: fl_0)

lemma near_walls_fl_40: "fl (0 + (3 / 2 ^ 9)) = (3 / 2 ^ 9)"
  by (rule fl_eqI [where e = "- 8" and m = "6755399441055744"]) simp_all

lemma near_walls_fl_41: "fl (0 + 0) = 0"
  by (simp add: fl_0)

lemma near_walls_fl_42: "fl ((- 1) * (4951760157141521 / 2 ^ 92)) = (- (4951760157141521 / 2 ^ 92))"
  by (rule fl_eqI [where e = "- 40" and m = "- 4951760157141521"]) simp_all

lemma near_walls_fl_43: "fl (0 * (4951760157141521 / 2 ^ 92)) = 0"
  by (simp add: fl_0)

lemma near_walls_fl_44: "fl ((3 / 2 ^ 9) + (- (4951760157141521 / 2 ^ 92))) = (3377699719951411 / 2 ^ 59)"
  by (rule fl_eqI [where e = "- 8" and m = "6755399439902822"]) simp_all

lemma near_walls_fl_45: "fl (1 - (3 / 2 ^ 9)) = (509 / 2 ^ 9)"
  by (rule fl_eqI [where e = "- 1" and m = "8954422696607744"]) simp_all

lemma near_walls_fl_46: "fl (1 * (509 / 2 ^ 9)) = (509 / 2 ^ 9)"
  by (rule fl_eqI [where e = "- 1" and m = "8954422696607744"]) simp_all

lemma near_walls_fl_47: "fl (0 * (509 / 2 ^ 9)) = 0"
  by (simp add: fl_0)

lemma near_walls_fl_48: "fl ((509 / 2 ^ 9) * (- 1)) = (- (509 / 2 ^ 9))"
  by (rule fl_eqI [where e = "- 1" and m = "- 8954422696607744"]) simp_all

lemma near_walls_fl_49: "fl ((- (509 / 2 ^ 9)) + 0) = (- (509 / 2 ^ 9))"
  by (rule fl_eqI [where e = "- 1" and m = "- 8954422696607744"]) simp_all

lemma near_walls_fl_50: "fl (2 * (- (509 / 2 ^ 9))) = (- (509 / 2 ^ 8))"
  by (rule fl_eqI [where e = "0" and m = "- 8954422696607744"]) simp_all

lemma near_walls_fl_51: "fl ((- 1) * (- (509 / 2 ^ 8))) = (509 / 2 ^ 8)"
  by (rule fl_eqI [where e = "0" and m = "8954422696607744"]) simp_all

lemma near_walls_fl_52: "fl ((509 / 2 ^ 9) - (509 / 2 ^ 8)) = (- (509 / 2 ^ 9))"
  by (rule fl_eqI [where e = "- 1" and m = "- 8954422696607744"]) simp_all

lemma near_walls_fl_53: "fl (0 * (- (509 / 2 ^ 8))) = 0"
  by (simp add: fl_0)

lemma near_walls_fl_54: "fl (0 - 0) = 0"
  by (simp add: fl_0)

lemma near_walls_fl_55: "\<not> ((\<bar>(- (509 / 2 ^ 9))\<bar> :: real) \<le> (4951760157141521 / 2 ^ 92))"
  by simp

lemma near_walls_fl_56: "fl ((- (509 / 2 ^ 9)) * 2) = (- (509 / 2 ^ 8))"
  by (rule fl_eqI [where e = "0" and m = "- 8954422696607744"]) simp_all

lemma near_walls_fl_57: "fl ((- (509 / 2 ^ 8)) - 0) = (- (509 / 2 ^ 8))"
  by (rule fl_eqI [where e = "0" and m = "- 8954422696607744"]) simp_all

lemma near_walls_fl_58: "\<not> ((\<bar>(- (509 / 2 ^ 8))\<bar> :: real) \<le> (4951760157141521 / 2 ^ 92))"
  by simp

lemma near_walls_fl_59: "fl ((3 / 2 ^ 9) - (3377699719951411 / 2 ^ 59)) = (576461 / 2 ^ 59)"
  by (rule fl_eqI [where e = "- 40" and m = "4951762284838912"]) simp_all

lemma near_walls_fl_60: "fl ((576461 / 2 ^ 59) * 2) = (576461 / 2 ^ 58)"
  by (rule fl_eqI [where e = "- 39" and m = "4951762284838912"]) simp_all

lemma near_walls_fl_61: "fl ((576461 / 2 ^ 58) - 0) = (576461 / 2 ^ 58)"
  by (rule fl_eqI [where e = "- 39" and m = "4951762284838912"]) simp_all

lemma near_walls_fl_62: "fl ((576461 / 2 ^ 58) / (- (509 / 2 ^ 8))) = (- (1245236881059687 / 2 ^ 90))"
  by (rule fl_eqI [where e = "- 40" and m = "- 4980947524238748"]) simp_all

lemma near_walls_fl_63: "((- (1245236881059687 / 2 ^ 90)) :: real) \<le> (4951760157141521 / 2 ^ 92)"
  by simp

lemma near_walls_fl_64: "\<not> (((562949953421875 / 2 ^ 49) :: real) < (- (1245236881059687 / 2 ^ 90)))"
  by simp

lemma near_walls_fl_65: "fl ((6755399441054591 / 2 ^ 60) - (3377699719951411 / 2 ^ 59)) = (1151769 / 2 ^ 60)"
  by (rule fl_eqI [where e = "- 40" and m = "4946810187546624"]) simp_all

lemma near_walls_fl_66: "fl ((1151769 / 2 ^ 60) * 2) = (1151769 / 2 ^ 59)"
  by (rule fl_eqI [where e = "- 39" and m = "4946810187546624"]) simp_all

lemma near_walls_fl_67: "fl ((1151769 / 2 ^ 59) - 0) = (1151769 / 2 ^ 59)"
  by (rule fl_eqI [where e = "- 39" and m = "4946810187546624"]) simp_all

lemma near_walls_fl_68: "fl ((1151769 / 2 ^ 59) / (- (509 / 2 ^ 8))) = (- (4975966239732557 / 2 ^ 92))"
  by (rule fl_eqI [where e = "- 40" and m = "- 4975966239732557"]) simp_all

lemma near_walls_fl_69: "((- (4975966239732557 / 2 ^ 92)) :: real) \<le> (4951760157141521 / 2 ^ 92)"
  by simp

lemma near_walls_fl_70: "\<not> (((562949953421875 / 2 ^ 49) :: real) < (- (4975966239732557 / 2 ^ 92)))"
  by simp

lemma near_walls_fl_71: "fl ((3377699719951411 / 2 ^ 59) + (- (509 / 2 ^ 9))) = (- (8901646138483503 / 2 ^ 53))"
  by (rule fl_eqI [where e = "- 1" and m = "- 8901646138483503"]) simp_all

lemma near_walls_fl_72: "fl ((6755399441054591 / 2 ^ 60) - (2535301200456459 / 2 ^ 101)) = (3377699720526719 / 2 ^ 59)"
  by (rule fl_eqI [where e = "- 8" and m = "6755399441053438"]) simp_all

lemma near_walls_fl_73: "\<not> (((3 / 2 ^ 9) :: real) < (3377699720526719 / 2 ^ 59))"
  by simp

lemma near_walls_fl_74: "fl ((3 / 2 ^ 9) - (6755399441054591 / 2 ^ 60)) = (1153 / 2 ^ 60)"
  by (rule fl_eqI [where e = "- 50" and m = "5070947627302912"]) simp_all

lemma near_walls_fl_75: "\<not> ((\<bar>(1153 / 2 ^ 60)\<bar> :: real) \<le> (2535301200456459 / 2 ^ 101))"
  by simp

lemma near_walls_fl_76: "fl (1 * (6755399441054591 / 2 ^ 60)) = (6755399441054591 / 2 ^ 60)"
  by (rule fl_eqI [where e = "- 8" and m = "6755399441054591"]) simp_all

lemma near_walls_fl_77: "fl (0 * (6755399441054591 / 2 ^ 60)) = 0"
  by (simp add: fl_0)

lemma near_walls_fl_78: "fl (0 + (6755399441054591 / 2 ^ 60)) = (6755399441054591 / 2 ^ 60)"
  by (rule fl_eqI [where e = "- 8" and m = "6755399441054591"]) simp_all

lemma near_walls_fl_79: "fl ((6755399441054591 / 2 ^ 60) + (- (4951760157141521 / 2 ^ 92))) = (6755399439901669 / 2 ^ 60)"
  by (rule fl_eqI [where e = "- 8" and m = "6755399439901669"]) simp_all

lemma near_walls_fl_80: "fl (1 - (6755399441054591 / 2 ^ 60)) = (8954422696607753 / 2 ^ 53)"
  by (rule fl_eqI [where e = "- 1" and m = "8954422696607753"]) simp_all

lemma near_walls_fl_81: "fl (1 * (8954422696607753 / 2 ^ 53)) = (8954422696607753 / 2 ^ 53)"
  by (rule fl_eqI [where e = "- 1" and m = "8954422696607753"]) simp_all

lemma near_walls_fl_82: "fl (0 * (8954422696607753 / 2 ^ 53)) = 0"
  by (simp add: fl_0)

lemma near_walls_fl_83: "fl ((8954422696607753 / 2 ^ 53) * (- 1)) = (- (8954422696607753 / 2 ^ 53))"
  by (rule fl_eqI [where e = "- 1" and m = "- 8954422696607753"]) simp_all

lemma near_walls_fl_84: "fl ((- (8954422696607753 / 2 ^ 53)) + 0) = (- (8954422696607753 / 2 ^ 53))"
  by (rule fl_eqI [where e = "- 1" and m = "- 8954422696607753"]) simp_all

lemma near_walls_fl_85: "fl (2 * (- (8954422696607753 / 2 ^ 53))) = (- (8954422696607753 / 2 ^ 52))"
  by (rule fl_eqI [where e = "0" and m = "- 8954422696607753"]) simp_all

lemma near_walls_fl_86: "fl ((- 1) * (- (8954422696607753 / 2 ^ 52))) = (8954422696607753 / 2 ^ 52)"
  by (rule fl_eqI [where e = "0" and m = "8954422696607753"]) simp_all

lemma near_walls_fl_87: "fl ((8954422696607753 / 2 ^ 53) - (8954422696607753 / 2 ^ 52)) = (- (8954422696607753 / 2 ^ 53))"
  by (rule fl_eqI [where e = "- 1" and m = "- 8954422696607753"]) simp_all

lemma near_walls_fl_88: "fl (0 * (- (8954422696607753 / 2 ^ 52))) = 0"
  by (simp add: fl_0)

lemma near_walls_fl_89: "\<not> ((\<bar>(- (8954422696607753 / 2 ^ 53))\<bar> :: real) \<le> (4951760157141521 / 2 ^ 92))"
  by simp

lemma near_walls_fl_90: "fl ((- (8954422696607753 / 2 ^ 53)) * 2) = (- (8954422696607753 / 2 ^ 52))"
  by (rule fl_eqI [where e = "0" and m = "- 8954422696607753"]) simp_all

lemma near_walls_fl_91: "fl ((- (8954422696607753 / 2 ^ 52)) - 0) = (- (8954422696607753 / 2 ^ 52))"
  by (rule fl_eqI [where e = "0" and m = "- 8954422696607753"]) simp_all

lemma near_walls_fl_92: "\<not> ((\<bar>(- (8954422696607753 / 2 ^ 52))\<bar> :: real) \<le> (4951760157141521 / 2 ^ 92))"
  by simp

lemma near_walls_fl_93: "fl ((6755399441054591 / 2 ^ 60) - (6755399439901669 / 2 ^ 60)) = (576461 / 2 ^ 59)"
  by (rule fl_eqI [where e = "- 40" and m = "4951762284838912"]) simp_all

lemma near_walls_fl_94: "fl ((576461 / 2 ^ 58) / (- (8954422696607753 / 2 ^ 52))) = (- (4980947524238743 / 2 ^ 92))"
  by (rule fl_eqI [where e = "- 40" and m = "- 4980947524238743"]) simp_all

lemma near_walls_fl_95: "((- (4980947524238743 / 2 ^ 92)) :: real) \<le> (4951760157141521 / 2 ^ 92)"
  by simp

lemma near_walls_fl_96: "\<not> (((562949953421875 / 2 ^ 49) :: real) < (- (4980947524238743 / 2 ^ 92)))"
  by simp

lemma near_walls_fl_97: "fl ((3 / 2 ^ 9) - (6755399439901669 / 2 ^ 60)) = (1154075 / 2 ^ 60)"
  by (rule fl_eqI [where e = "- 40" and m = "4956714382131200"]) simp_all

lemma near_walls_fl_98: "fl ((1154075 / 2 ^ 60) * 2) = (1154075 / 2 ^ 59)"
  by (rule fl_eqI [where e = "- 39" and m = "4956714382131200"]) simp_all

lemma near_walls_fl_99: "fl ((1154075 / 2 ^ 59) - 0) = (1154075 / 2 ^ 59)"
  by (rule fl_eqI [where e = "- 39" and m = "4956714382131200"]) simp_all

lemma near_walls_fl_100: "fl ((1154075 / 2 ^ 59) / (- (8954422696607753 / 2 ^ 52))) = (- (4985928808744935 / 2 ^ 92))"
  by (rule fl_eqI [where e = "- 40" and m = "- 4985928808744935"]) simp_all

lemma near_walls_fl_101: "((- (4985928808744935 / 2 ^ 92)) :: real) \<le> (4951760157141521 / 2 ^ 92)"
  by simp

lemma near_walls_fl_102: "\<not> (((562949953421875 / 2 ^ 49) :: real) < (- (4985928808744935 / 2 ^ 92)))"
  by simp

lemma near_walls_fl_103: "fl ((6755399439901669 / 2 ^ 60) + (- (8954422696607753 / 2 ^ 53))) = (- (8901646138483521 / 2 ^ 53))"
  by (rule fl_eqI [where e = "- 1" and m = "- 8901646138483521"]) simp_all

lemmas near_walls_steps =
  near_walls_fl_1 near_walls_fl_2 near_walls_fl_3 near_walls_fl_4 near_walls_fl_5 near_walls_fl_6
  near_walls_fl_7 near_walls_fl_8 near_walls_fl_9 near_walls_fl_10 near_walls_fl_11 near_walls_fl_12
  near_walls_fl_13 near_walls_fl_14 near_walls_fl_15 near_walls_fl_16 near_walls_fl_17 near_walls_fl_18
  near_walls_fl_19 near_walls_fl_20 near_walls_fl_21 near_walls_fl_22 near_walls_fl_23 near_walls_fl_24
  near_walls_fl_25 near_walls_fl_26 near_walls_fl_27 near_walls_fl_28 near_walls_fl_29 near_walls_fl_30
  near_walls_fl_31 near_walls_fl_32 near_walls_fl_33 near_walls_fl_34 near_walls_fl_35 near_walls_fl_36
  near_walls_fl_37 near_walls_fl_38 near_walls_fl_39 near_walls_fl_40 near_walls_fl_41 near_walls_fl_42
  near_walls_fl_43 near_walls_fl_44 near_walls_fl_45 near_walls_fl_46 near_walls_fl_47 near_walls_fl_48
  near_walls_fl_49 near_walls_fl_50 near_walls_fl_51 near_walls_fl_52 near_walls_fl_53 near_walls_fl_54
  near_walls_fl_55 near_walls_fl_56 near_walls_fl_57 near_walls_fl_58 near_walls_fl_59 near_walls_fl_60
  near_walls_fl_61 near_walls_fl_62 near_walls_fl_63 near_walls_fl_64 near_walls_fl_65 near_walls_fl_66
  near_walls_fl_67 near_walls_fl_68 near_walls_fl_69 near_walls_fl_70 near_walls_fl_71 near_walls_fl_72
  near_walls_fl_73 near_walls_fl_74 near_walls_fl_75 near_walls_fl_76 near_walls_fl_77 near_walls_fl_78
  near_walls_fl_79 near_walls_fl_80 near_walls_fl_81 near_walls_fl_82 near_walls_fl_83 near_walls_fl_84
  near_walls_fl_85 near_walls_fl_86 near_walls_fl_87 near_walls_fl_88 near_walls_fl_89 near_walls_fl_90
  near_walls_fl_91 near_walls_fl_92 near_walls_fl_93 near_walls_fl_94 near_walls_fl_95 near_walls_fl_96
  near_walls_fl_97 near_walls_fl_98 near_walls_fl_99 near_walls_fl_100 near_walls_fl_101 near_walls_fl_102
  near_walls_fl_103

lemmas b64_arith =
  cross2_b64_def vadd_b64_def reflect_b64_def dot_b64_def
  EPS_DIR_b64_def EPS_POS_b64_def TIE_TOL_b64_def t_earlier_b64_def t_tied_b64_def
  no_motion_b64_def Let_def
  Vec2.sel WallSegment.sel Scan.sel Loop.sel option.case sum.case if_True if_False simp_thms
  of_nat_0 order_less_irrefl

lemmas b64_scan = scan_walls_b64.simps scan_wall_b64_def scan_init_def

lemma near_walls_scan_1:
  "scan_walls_b64 (Vec2 0 0) (Vec2 1 0) 0 [wall_far, wall_near] scan_init
     = Scan (Some (3 / 2 ^ 9)) 0 0 (Vec2 (- 1) 0)"
  by (simp only: b64_scan b64_arith wall_far_def wall_near_def near_walls_steps)

lemma near_walls_swapped_scan_1:
  "scan_walls_b64 (Vec2 0 0) (Vec2 1 0) 0 [wall_near, wall_far] scan_init
     = Scan (Some (6755399441054591 / 2 ^ 60)) 0 1 (Vec2 (- 1) 0)"
  by (simp only: b64_scan b64_arith wall_far_def wall_near_def near_walls_steps)

lemma first_bounce: "(0::nat) + 1 = 1"
  by simp

lemma best_t_scan_init: "best_t scan_init = None"
  by (simp add: scan_init_def)

lemma near_walls_body_1:
  "loop_body_b64 [wall_far, wall_near] (Loop (Vec2 0 0) (Vec2 1 0) 0)
     = Inr (Loop (Vec2 (3377699719951411 / 2 ^ 59) 0) (Vec2 (- (509 / 2 ^ 9)) 0) 1)"
  by (simp only: loop_body_b64_def near_walls_scan_1 b64_arith near_walls_steps first_bounce)

lemma near_walls_swapped_body_1:
  "loop_body_b64 [wall_near, wall_far] (Loop (Vec2 0 0) (Vec2 1 0) 0)
     = Inr (Loop (Vec2 (6755399439901669 / 2 ^ 60) 0) (Vec2 (- (8954422696607753 / 2 ^ 53)) 0) 1)"
  by (simp only: loop_body_b64_def near_walls_swapped_scan_1 b64_arith near_walls_steps
        first_bounce)

lemma near_walls_scan_2:
  "scan_walls_b64 (Vec2 (3377699719951411 / 2 ^ 59) 0) (Vec2 (- (509 / 2 ^ 9)) 0) 0
     [wall_far, wall_near] scan_init = scan_init"
  by (simp only: scan_walls_b64.simps scan_wall_b64_def b64_arith wall_far_def wall_near_def
        near_walls_steps)

lemma near_walls_swapped_scan_2:
  "scan_walls_b64 (Vec2 (6755399439901669 / 2 ^ 60) 0) (Vec2 (- (8954422696607753 / 2 ^ 53)) 0) 0
     [wall_near, wall_far] scan_init = scan_init"
  by (simp only: scan_walls_b64.simps scan_wall_b64_def b64_arith wall_far_def wall_near_def
        near_walls_steps)

lemma near_walls_body_2:
  "loop_body_b64 [wall_far, wall_near]
     (Loop (Vec2 (3377699719951411 / 2 ^ 59) 0) (Vec2 (- (509 / 2 ^ 9)) 0) 1)
     = Inl (Loop (Vec2 (- (8901646138483503 / 2 ^ 53)) 0) (Vec2 (- (509 / 2 ^ 9)) 0) 1)"
  by (simp only: loop_body_b64_def near_walls_scan_2 best_t_scan_init b64_arith
        near_walls_steps)

lemma near_walls_swapped_body_2:
  "loop_body_b64 [wall_near, wall_far]
     (Loop (Vec2 (6755399439901669 / 2 ^ 60) 0) (Vec2 (- (8954422696607753 / 2 ^ 53)) 0) 1)
     = Inl (Loop (Vec2 (- (8901646138483521 / 2 ^ 53)) 0)
             (Vec2 (- (8954422696607753 / 2 ^ 53)) 0) 1)"
  by (simp only: loop_body_b64_def near_walls_swapped_scan_2 best_t_scan_init b64_arith
        near_walls_steps)

lemma bounces_below_cap: "(0::nat) < MAX_REFLECTIONS" "(1::nat) < MAX_REFLECTIONS"
  by (simp_all add: MAX_REFLECTIONS_def)

lemma near_walls_advance:
  "advance_b64 (Vec2 0 0) (Vec2 1 0) near_walls = Vec2 (- (8901646138483503 / 2 ^ 53)) 0"
  by (simp only: advance_b64_def near_walls_def ReflectingWorld.sel
        advance_loop_b64.simps [of _ "Loop (Vec2 0 0) (Vec2 1 0) 0"]
        advance_loop_b64.simps [of _ "Loop (Vec2 (3377699719951411 / 2 ^ 59) 0) (Vec2 (- (509 / 2 ^ 9)) 0) 1"]
        near_walls_body_1 near_walls_body_2 bounces_below_cap b64_arith near_walls_steps)

lemma near_walls_swapped_advance:
  "advance_b64 (Vec2 0 0) (Vec2 1 0) near_walls_swapped
     = Vec2 (- (8901646138483521 / 2 ^ 53)) 0"
  by (simp only: advance_b64_def near_walls_swapped_def ReflectingWorld.sel
        advance_loop_b64.simps [of _ "Loop (Vec2 0 0) (Vec2 1 0) 0"]
        advance_loop_b64.simps [of _ "Loop (Vec2 (6755399439901669 / 2 ^ 60) 0) (Vec2 (- (8954422696607753 / 2 ^ 53)) 0) 1"]
        near_walls_swapped_body_1 near_walls_swapped_body_2 bounces_below_cap b64_arith
        near_walls_steps)

lemma wall_far_alone:
  "scan_walls_b64 (Vec2 0 0) (Vec2 1 0) 0 [wall_far] scan_init
     = Scan (Some (3 / 2 ^ 9)) 0 0 (Vec2 (- 1) 0)"
  by (simp only: b64_scan b64_arith wall_far_def near_walls_steps)

lemma wall_near_alone:
  "scan_walls_b64 (Vec2 0 0) (Vec2 1 0) 0 [wall_near] scan_init
     = Scan (Some (6755399441054591 / 2 ^ 60)) 0 1 (Vec2 (- 1) 0)"
  by (simp only: b64_scan b64_arith wall_near_def near_walls_steps)

lemma near_walls_threshold:
  "fl (3 / 2 ^ 9 - TIE_TOL_b64) = 6755399441054591 / 2 ^ 60"
  by (simp only: TIE_TOL_b64_def near_walls_steps)

lemma near_walls_not_tied:
  "\<not> t_tied_b64 (6755399441054591 / 2 ^ 60) (Some (3 / 2 ^ 9))"
  "\<not> t_tied_b64 (3 / 2 ^ 9) (Some (6755399441054591 / 2 ^ 60))"
  by (simp_all only: b64_arith near_walls_steps)

lemma near_walls_not_earlier:
  "\<not> t_earlier_b64 (6755399441054591 / 2 ^ 60) (Some (3 / 2 ^ 9))"
  by (simp only: b64_arith near_walls_steps)

text \<open>
  C8 (the code departs from the claim).  From the origin along \<open>(1, 0)\<close> the two walls of
  \<open>near_walls\<close> are both candidates, with \<open>t = 3 / 512\<close> (id \<open>0\<close>) and
  \<open>t = 3 / 512 - 1153 * 2 ^ - 60\<close> (id \<open>1\<close>).  The two parameters are not tied: they are more
  than \<^verbatim>\<open>1e-15\<close> apart, and the test \<^verbatim>\<open>std::abs(t - best_t) <= 1e-15\<close> is false in both
  directions.  But \<^verbatim>\<open>best_t - 1e-15\<close>, rounded, is the nearer parameter itself, so the test
  \<^verbatim>\<open>t < best_t - 1e-15\<close> is false as well: the nearer wall does not replace the farther
  one when it is scanned second.  With the farther wall inserted first the call returns
  \<open>x = - 8901646138483503 / 2 ^ 53\<close> (printed \<^verbatim>\<open>-0.988281250001\<close>), with the walls
  permuted it returns \<open>x = - 8901646138483521 / 2 ^ 53\<close> (printed \<^verbatim>\<open>-0.988281250001002\<close>).
\<close>

theorem near_walls_order_dependence:
  "mset (walls near_walls_swapped) = mset (walls near_walls)
   \<and> scan_walls_b64 (Vec2 0 0) (Vec2 1 0) 0 [wall_far] scan_init
       = Scan (Some (3 / 2 ^ 9)) 0 0 (Vec2 (- 1) 0)
   \<and> scan_walls_b64 (Vec2 0 0) (Vec2 1 0) 0 [wall_near] scan_init
       = Scan (Some (6755399441054591 / 2 ^ 60)) 0 1 (Vec2 (- 1) 0)
   \<and> TIE_TOL < 3 / 2 ^ 9 - 6755399441054591 / 2 ^ 60
   \<and> TIE_TOL_b64 < 3 / 2 ^ 9 - 6755399441054591 / 2 ^ 60
   \<and> \<not> t_tied_b64 (6755399441054591 / 2 ^ 60) (Some (3 / 2 ^ 9))
   \<and> \<not> t_tied_b64 (3 / 2 ^ 9) (Some (6755399441054591 / 2 ^ 60))
   \<and> fl (3 / 2 ^ 9 - TIE_TOL_b64) = 6755399441054591 / 2 ^ 60
   \<and> \<not> t_earlier_b64 (6755399441054591 / 2 ^ 60) (Some (3 / 2 ^ 9))
   \<and> advance_b64 (Vec2 0 0) (Vec2 1 0) near_walls = Vec2 (- (8901646138483503 / 2 ^ 53)) 0
   \<and> advance_b64 (Vec2 0 0) (Vec2 1 0) near_walls_swapped
       = Vec2 (- (8901646138483521 / 2 ^ 53)) 0
   \<and> advance_b64 (Vec2 0 0) (Vec2 1 0) near_walls_swapped
       \<noteq> advance_b64 (Vec2 0 0) (Vec2 1 0) near_walls"
proof -
  have p: "mset (walls near_walls_swapped) = mset (walls near_walls)"
    by (simp add: near_walls_def near_walls_swapped_def)
  have g: "TIE_TOL < 3 / 2 ^ 9 - 6755399441054591 / 2 ^ 60"
    by (simp add: TIE_TOL_def)
  have "TIE_TOL_b64 = 2535301200456459 / 2 ^ 101"
    by (simp only: TIE_TOL_b64_def near_walls_steps)
  then have g': "TIE_TOL_b64 < 3 / 2 ^ 9 - 6755399441054591 / 2 ^ 60"
    by simp
  have ne: "advance_b64 (Vec2 0 0) (Vec2 1 0) near_walls_swapped
       \<noteq> advance_b64 (Vec2 0 0) (Vec2 1 0) near_walls"
    unfolding near_walls_advance near_walls_swapped_advance by simp
  from p wall_far_alone wall_near_alone g g' near_walls_not_tied near_walls_threshold
    near_walls_not_earlier near_walls_advance near_walls_swapped_advance ne
  show ?thesis by (simp only: simp_thms)
qed

end
